theory Spec2Isabelle
  imports Main "HOL-Library.Char_ord" "HOL-Library.List_Lexorder"
begin

section \<open>Data model\<close>

text \<open>
  A \<^verbatim>\<open>time.Time\<close> is modelled by the instant it denotes (an integer count of clock
  units); \<^verbatim>\<open>Equal\<close> on two times compares instants, which is equality here. Sizes
  and row ids are \<^verbatim>\<open>int64\<close> in the source; no arithmetic that could overflow is done
  on them, so they are integers.
\<close>

type_synonym time = int

text \<open>\<^verbatim>\<open>interfaces.ObjectInfo\<close>: the live description of an object in a bucket.\<close>

record ObjectInfo =
  Name :: string
  Bucket :: string
  Size :: int
  ContentType :: string
  LastModified :: time
  ETag :: string
  Metadata :: "string \<rightharpoonup> string"

text \<open>\<^verbatim>\<open>database.FileMetadata\<close>: one row of table \<^verbatim>\<open>file_metadata\<close> in its current
  layout, field for column.\<close>

record FileMetadata =
  ID :: int
  MappingID :: string
  ObjectName :: string
  Size :: int
  LastModified :: time
  ETag :: string
  ContentType :: string
  LastSynced :: time
  SyncStatus :: string

text \<open>\<^verbatim>\<open>config.BucketMapping\<close>.\<close>

record BucketMapping =
  SourceProviderID :: string
  SourceBucket :: string
  TargetProviderID :: string
  TargetBucket :: string

subsection \<open>SQL statements and errors\<close>

text \<open>
  Every SQL statement the package issues has a name. Whether a statement fails when it is
  executed (I/O error, lock, full disk) is decided by the environment, a predicate on
  these names.
\<close>

datatype stmt =
    CheckMigrationsTable
  | CreateMigrationsTable
  | SelectMaxVersion
  | BeginTx
  | RecordMigration int
  | CommitTx
  | M1CheckBucketName
  | M1CheckSourceBucket
  | M1CreateTable
  | M2CheckTable
  | M2CreateTable
  | M2CheckMappingID
  | M2CheckBucketName
  | M2CheckSourceBucket
  | M2RekeyBucketName
  | M2RekeySourceTarget
  | SelectMetadata string string
  | UpsertMetadata string string
  | SelectByMapping string
  | DeleteMetadata string string

type_synonym faults = "stmt \<Rightarrow> bool"

text \<open>A Go \<^verbatim>\<open>error\<close>: a message, a failed statement, or \<^verbatim>\<open>fmt.Errorf\<close> wrapping a
  cause behind a prefix.\<close>

datatype error =
    Msg string
  | SqlFailure stmt
  | Wrap string error




section \<open>The metadata store\<close>

text \<open>
  The columns that the re-keying statements of migration 2 copy from a legacy table. The
  statements that created the legacy tables are not part of the repository; a legacy row
  is taken to hold a value in each of these columns and in its bucket columns. (A row with
  NULL in a bucket column or in a column that the new table declares \<^verbatim>\<open>NOT NULL\<close> is not
  described by this type.)
\<close>

record legacy_columns =
  object_name :: string
  size :: int
  last_modified :: time
  etag :: string
  content_type :: string
  last_synced :: time
  sync_status :: string

text \<open>
  Table \<^verbatim>\<open>file_metadata\<close> in one of the three layouts that the migrations tell apart
  by their columns: the current one (column \<^verbatim>\<open>mapping_id\<close>, constraint
  \<^verbatim>\<open>UNIQUE(mapping_id, object_name)\<close>, with the AUTOINCREMENT counter of its
  \<^verbatim>\<open>id\<close>), the legacy one keyed by \<^verbatim>\<open>bucket_name\<close>, and the legacy one keyed by
  \<^verbatim>\<open>source_bucket\<close> and \<^verbatim>\<open>target_bucket\<close>. Rows are listed in rowid order. The
  counter is the entry of the table in \<^verbatim>\<open>sqlite_sequence\<close>: the largest id that an INSERT
  into the table has computed so far, which SQLite keeps at least as large as every id in
  the table. The next INSERT computes the id after it. An INSERT computes its id before
  the constraints are checked, so an insert that is then ignored, or turned into an
  update, has used up an id as well.
\<close>

datatype table =
    Current "FileMetadata list" int
  | ByBucketName "(string \<times> legacy_columns) list"
  | BySourceTarget "((string \<times> string) \<times> legacy_columns) list"

text \<open>
  The database file: table \<^verbatim>\<open>schema_migrations\<close> (absent, or its rows
  \<^verbatim>\<open>(version, applied_at)\<close>) and table \<^verbatim>\<open>file_metadata\<close> (absent, or present).
\<close>

record DB =
  schema_migrations :: "(int \<times> time) list option"
  file_metadata :: "table option"















subsection \<open>Record operations\<close>

text \<open>
  The four statements below name columns of the current layout; on any other state of
  \<^verbatim>\<open>file_metadata\<close> (absent, or a legacy layout) they fail.
\<close>

definition GetFileMetadata :: "faults \<Rightarrow> DB \<Rightarrow> string \<Rightarrow> string \<Rightarrow> error + FileMetadata option" where
  "GetFileMetadata F db mappingID objectName =
     (case file_metadata db of
        Some (Current rows seq) \<Rightarrow>
          (if F (SelectMetadata mappingID objectName)
           then Inl (Wrap ''error querying metadata'' (SqlFailure (SelectMetadata mappingID objectName)))
           else Inr (find (\<lambda>r. MappingID r = mappingID \<and> ObjectName r = objectName) rows))
      | _ \<Rightarrow> Inl (Wrap ''error querying metadata'' (SqlFailure (SelectMetadata mappingID objectName))))"

text \<open>
  \<^verbatim>\<open>INSERT ... ON CONFLICT(mapping_id, object_name) DO UPDATE SET\<close> the six other
  columns: the row of that key keeps its id and takes the six values; without such a row,
  a new row is appended under the next id. The counter advances in both cases.
\<close>

definition setColumns :: "FileMetadata \<Rightarrow> FileMetadata \<Rightarrow> FileMetadata" where
  "setColumns metadata r =
     r\<lparr>FileMetadata.Size := FileMetadata.Size metadata,
       FileMetadata.LastModified := FileMetadata.LastModified metadata,
       FileMetadata.ETag := FileMetadata.ETag metadata,
       FileMetadata.ContentType := FileMetadata.ContentType metadata,
       LastSynced := LastSynced metadata,
       SyncStatus := SyncStatus metadata\<rparr>"

definition UpsertFileMetadata :: "faults \<Rightarrow> DB \<Rightarrow> FileMetadata \<Rightarrow> error option \<times> DB" where
  "UpsertFileMetadata F db metadata =
     (case file_metadata db of
        Some (Current rows seq) \<Rightarrow>
          (if F (UpsertMetadata (MappingID metadata) (ObjectName metadata))
           then (Some (Wrap ''error inserting/updating metadata''
                        (SqlFailure (UpsertMetadata (MappingID metadata) (ObjectName metadata)))), db)
           else if \<exists>r \<in> set rows. MappingID r = MappingID metadata \<and> ObjectName r = ObjectName metadata
           then (None, db\<lparr>file_metadata := Some (Current
                   (map (\<lambda>r. if MappingID r = MappingID metadata \<and> ObjectName r = ObjectName metadata
                             then setColumns metadata r else r) rows) (seq + 1))\<rparr>)
           else (None, db\<lparr>file_metadata := Some (Current (rows @ [metadata\<lparr>ID := seq + 1\<rparr>]) (seq + 1))\<rparr>))
      | _ \<Rightarrow> (Some (Wrap ''error inserting/updating metadata''
                     (SqlFailure (UpsertMetadata (MappingID metadata) (ObjectName metadata)))), db))"


definition DeleteFileMetadata :: "faults \<Rightarrow> DB \<Rightarrow> string \<Rightarrow> string \<Rightarrow> error option \<times> DB" where
  "DeleteFileMetadata F db mappingID objectName =
     (case file_metadata db of
        Some (Current rows seq) \<Rightarrow>
          (if F (DeleteMetadata mappingID objectName)
           then (Some (Wrap ''error deleting metadata'' (SqlFailure (DeleteMetadata mappingID objectName))), db)
           else (None, db\<lparr>file_metadata := Some (Current
                   (filter (\<lambda>r. \<not> (MappingID r = mappingID \<and> ObjectName r = objectName)) rows) seq)\<rparr>))
      | _ \<Rightarrow> (Some (Wrap ''error deleting metadata'' (SqlFailure (DeleteMetadata mappingID objectName))), db))"

section \<open>Storage providers\<close>

text \<open>
  \<^verbatim>\<open>interfaces.StorageProvider\<close>, as the outcome of each method during one
  synchronization run. All four providers of the repository return a nil map together
  with an error from \<^verbatim>\<open>ListObjects\<close>, so its result is a sum. A listing is a Go
  map, given as the list of its entries in the order in which \<^verbatim>\<open>range\<close> visits them;
  its keys are distinct. The content of an object is streamed from the reader of
  \<^verbatim>\<open>GetObject\<close> into \<^verbatim>\<open>UploadObject\<close> and is not looked at; only whether each call
  fails is kept. Within one run each method is called at most once for a bucket and an
  object name.
\<close>

type_synonym listing = "(string \<times> ObjectInfo) list"

record StorageProvider =
  ListObjects :: "string \<Rightarrow> error + listing"
  GetObject :: "string \<Rightarrow> string \<Rightarrow> error option"
  UploadObject :: "string \<Rightarrow> string \<Rightarrow> int \<Rightarrow> string \<Rightarrow> error option"
  DeleteObject :: "string \<Rightarrow> string \<Rightarrow> error option"
  EnsureBucketExists :: "string \<Rightarrow> error option"

text \<open>\<^verbatim>\<open>Factory.GetProvider\<close>.\<close>

definition GetProvider :: "(string \<rightharpoonup> StorageProvider) \<Rightarrow> string \<Rightarrow> error + StorageProvider" where
  "GetProvider providers ident =
     (case providers ident of
        None \<Rightarrow> Inl (Msg (''provider not found: '' @ ident))
      | Some provider \<Rightarrow> Inr provider)"

section \<open>The synchronizer\<close>

text \<open>
  What a run does to the outside is recorded in order: the calls to the providers (with
  the id of the provider called), the calls to the store, and the summary lines written
  to the log.
\<close>

datatype event =
    ListObjectsCall string string
  | EnsureBucketExistsCall string string
  | GetObjectCall string string string
  | UploadObjectCall string string string int string
  | DeleteObjectCall string string string
  | GetFileMetadataCall string string
  | UpsertFileMetadataCall FileMetadata
  | DeleteFileMetadataCall string string
  | LogMappingStart BucketMapping
  | LogMappingError BucketMapping error
  | LogMappingCompleted BucketMapping
  | LogSyncPhaseComplete nat nat nat nat
  | LogRemovalPhaseComplete nat nat

text \<open>
  \<^verbatim>\<open>Synchronizer\<close>: the configured mappings, the provider factory, and, for the store
  it holds, the statements that fail and the clock read by \<^verbatim>\<open>time.Now()\<close> (a
  function of the number of events so far).
\<close>

record Synchronizer =
  Mappings :: "BucketMapping list"
  providerFactory :: "string \<rightharpoonup> StorageProvider"
  dbFaults :: faults
  clock :: "nat \<Rightarrow> time"

text \<open>The mutable world: the store and the events so far.\<close>

record world =
  db :: DB
  trace :: "event list"

definition emit :: "event \<Rightarrow> world \<Rightarrow> world" where
  "emit e w = w\<lparr>trace := trace w @ [e]\<rparr>"

text \<open>\<^verbatim>\<open>updateObjectMetadata\<close>: builds the record from the source descriptor and upserts
  it; an error of the upsert is logged and dropped.\<close>

definition updateObjectMetadata ::
  "Synchronizer \<Rightarrow> string \<Rightarrow> string \<Rightarrow> ObjectInfo \<Rightarrow> string \<Rightarrow> world \<Rightarrow> world" where
  "updateObjectMetadata s mappingID objectName info status w =
     (let metadata = \<lparr>ID = 0, MappingID = mappingID, ObjectName = objectName,
                       Size = ObjectInfo.Size info,
                       LastModified = ObjectInfo.LastModified info,
                       ETag = ObjectInfo.ETag info,
                       ContentType = ObjectInfo.ContentType info,
                       LastSynced = clock s (length (trace w)),
                       SyncStatus = status\<rparr>
      in (emit (UpsertFileMetadataCall metadata) w)
           \<lparr>db := snd (UpsertFileMetadata (dbFaults s) (db w) metadata)\<rparr>)"

text \<open>The three counters of the synchronization phase.\<close>

record counters =
  syncCounter :: nat
  skipCounter :: nat
  errorCounter :: nat

text \<open>
  The value of \<^verbatim>\<open>storedMetadata\<close> after the fetch: nil when there is no row and also
  when the query failed (the error is logged).
\<close>

definition fetchStored :: "Synchronizer \<Rightarrow> DB \<Rightarrow> string \<Rightarrow> string \<Rightarrow> FileMetadata option" where
  "fetchStored s d mappingID objName =
     (case GetFileMetadata (dbFaults s) d mappingID objName of
        Inl err \<Rightarrow> None
      | Inr r \<Rightarrow> r)"

text \<open>The flag \<^verbatim>\<open>needsSync\<close> as the loop body computes it: true, unless a stored record
  is there and matches.\<close>

definition needsSync :: "FileMetadata option \<Rightarrow> ObjectInfo \<Rightarrow> bool" where
  "needsSync storedMetadata srcObjInfo =
     (case storedMetadata of
        None \<Rightarrow> True
      | Some m \<Rightarrow>
          (if FileMetadata.LastModified m = ObjectInfo.LastModified srcObjInfo
              \<and> FileMetadata.ETag m = ObjectInfo.ETag srcObjInfo
              \<and> SyncStatus m = ''success''
           then False else True))"

text \<open>One iteration of \<^verbatim>\<open>for objName, srcObjInfo := range sourceObjects\<close>.\<close>

definition syncObject ::
  "Synchronizer \<Rightarrow> StorageProvider \<Rightarrow> StorageProvider \<Rightarrow> BucketMapping \<Rightarrow> string
     \<Rightarrow> string \<times> ObjectInfo \<Rightarrow> world \<times> counters \<Rightarrow> world \<times> counters" where
  "syncObject s sourceProvider targetProvider mapping mappingID entry wc =
     (case entry of (objName, srcObjInfo) \<Rightarrow>
      case wc of (w, c) \<Rightarrow>
        let storedMetadata = fetchStored s (db w) mappingID objName;
            w1 = emit (GetFileMetadataCall mappingID objName) w
        in if \<not> needsSync storedMetadata srcObjInfo
           then (w1, c\<lparr>skipCounter := skipCounter c + 1\<rparr>)
           else
             let w2 = emit (GetObjectCall (SourceProviderID mapping) (SourceBucket mapping) objName) w1
             in (case GetObject sourceProvider (SourceBucket mapping) objName of
                   Some err \<Rightarrow>
                     (updateObjectMetadata s mappingID objName srcObjInfo ''failed_get'' w2,
                      c\<lparr>errorCounter := errorCounter c + 1\<rparr>)
                 | None \<Rightarrow>
                     let w3 = emit (UploadObjectCall (TargetProviderID mapping) (TargetBucket mapping)
                                      objName (ObjectInfo.Size srcObjInfo)
                                      (ObjectInfo.ContentType srcObjInfo)) w2
                     in (case UploadObject targetProvider (TargetBucket mapping) objName
                                (ObjectInfo.Size srcObjInfo) (ObjectInfo.ContentType srcObjInfo) of
                           Some err \<Rightarrow>
                             (updateObjectMetadata s mappingID objName srcObjInfo ''failed_upload'' w3,
                              c\<lparr>errorCounter := errorCounter c + 1\<rparr>)
                         | None \<Rightarrow>
                             (updateObjectMetadata s mappingID objName srcObjInfo ''success'' w3,
                              c\<lparr>syncCounter := syncCounter c + 1\<rparr>))))"

fun syncObjects ::
  "Synchronizer \<Rightarrow> StorageProvider \<Rightarrow> StorageProvider \<Rightarrow> BucketMapping \<Rightarrow> string
     \<Rightarrow> listing \<Rightarrow> world \<times> counters \<Rightarrow> world \<times> counters" where
  "syncObjects s sourceProvider targetProvider mapping mappingID [] wc = wc"
| "syncObjects s sourceProvider targetProvider mapping mappingID (entry # rest) wc =
     syncObjects s sourceProvider targetProvider mapping mappingID rest
       (syncObject s sourceProvider targetProvider mapping mappingID entry wc)"

text \<open>
  One iteration of \<^verbatim>\<open>for objName := range targetObjects\<close> in
  \<^verbatim>\<open>removeDeletedObjects\<close>; the pair of numbers is \<^verbatim>\<open>deleteCounter\<close> and
  \<^verbatim>\<open>errorCounter\<close>.
\<close>

definition removeObject ::
  "Synchronizer \<Rightarrow> string \<Rightarrow> BucketMapping \<Rightarrow> listing \<Rightarrow> StorageProvider \<Rightarrow> string
     \<Rightarrow> world \<times> nat \<times> nat \<Rightarrow> world \<times> nat \<times> nat" where
  "removeObject s mappingID mapping sourceObjects targetProvider objName wde =
     (case wde of (w, deleteCounter, errCounter) \<Rightarrow>
        if map_of sourceObjects objName = None
        then
          let w1 = emit (DeleteObjectCall (TargetProviderID mapping) (TargetBucket mapping) objName) w
          in (case DeleteObject targetProvider (TargetBucket mapping) objName of
                Some err \<Rightarrow> (w1, deleteCounter, errCounter + 1)
              | None \<Rightarrow>
                  ((emit (DeleteFileMetadataCall mappingID objName) w1)
                     \<lparr>db := snd (DeleteFileMetadata (dbFaults s) (db w1) mappingID objName)\<rparr>,
                   deleteCounter + 1, errCounter))
        else (w, deleteCounter, errCounter))"

fun removeLoop ::
  "Synchronizer \<Rightarrow> string \<Rightarrow> BucketMapping \<Rightarrow> listing \<Rightarrow> StorageProvider \<Rightarrow> string list
     \<Rightarrow> world \<times> nat \<times> nat \<Rightarrow> world \<times> nat \<times> nat" where
  "removeLoop s mappingID mapping sourceObjects targetProvider [] wde = wde"
| "removeLoop s mappingID mapping sourceObjects targetProvider (objName # rest) wde =
     removeLoop s mappingID mapping sourceObjects targetProvider rest
       (removeObject s mappingID mapping sourceObjects targetProvider objName wde)"

definition removeDeletedObjects ::
  "Synchronizer \<Rightarrow> string \<Rightarrow> BucketMapping \<Rightarrow> listing \<Rightarrow> listing \<Rightarrow> StorageProvider
     \<Rightarrow> world \<Rightarrow> world" where
  "removeDeletedObjects s mappingID mapping sourceObjects targetObjects targetProvider w =
     (case removeLoop s mappingID mapping sourceObjects targetProvider (map fst targetObjects) (w, 0, 0) of
        (w', deleteCounter, errCounter) \<Rightarrow>
          emit (LogRemovalPhaseComplete deleteCounter errCounter) w')"

text \<open>\<^verbatim>\<open>fmt.Sprintf("%s:%s->%s:%s", ...)\<close> on the four fields of the mapping.\<close>

definition mappingID_of :: "BucketMapping \<Rightarrow> string" where
  "mappingID_of mapping =
     SourceProviderID mapping @ '':'' @ SourceBucket mapping @ ''->''
       @ TargetProviderID mapping @ '':'' @ TargetBucket mapping"

text \<open>\<^verbatim>\<open>SyncBuckets\<close>: the error returned, and the world after the call.\<close>

definition SyncBuckets :: "Synchronizer \<Rightarrow> BucketMapping \<Rightarrow> world \<Rightarrow> error option \<times> world" where
  "SyncBuckets s mapping w =
     (case GetProvider (providerFactory s) (SourceProviderID mapping) of
        Inl err \<Rightarrow> (Some (Wrap (''error getting source provider '' @ SourceProviderID mapping) err), w)
      | Inr sourceProvider \<Rightarrow>
     (case GetProvider (providerFactory s) (TargetProviderID mapping) of
        Inl err \<Rightarrow> (Some (Wrap (''error getting target provider '' @ TargetProviderID mapping) err), w)
      | Inr targetProvider \<Rightarrow>
     let w1 = emit (ListObjectsCall (SourceProviderID mapping) (SourceBucket mapping)) w
     in (case ListObjects sourceProvider (SourceBucket mapping) of
        Inl err \<Rightarrow>
          (Some (Wrap (''error listing objects from source bucket '' @ SourceBucket mapping) err), w1)
      | Inr sourceObjects \<Rightarrow>
     let w2 = emit (ListObjectsCall (TargetProviderID mapping) (TargetBucket mapping)) w1;
         targetObjects = (case ListObjects targetProvider (TargetBucket mapping) of
                            Inl err \<Rightarrow> []
                          | Inr objs \<Rightarrow> objs);
         w3 = emit (EnsureBucketExistsCall (TargetProviderID mapping) (TargetBucket mapping)) w2
     in (case EnsureBucketExists targetProvider (TargetBucket mapping) of
        Some err \<Rightarrow>
          (Some (Wrap (''error ensuring target bucket '' @ TargetBucket mapping @ '' exists'') err), w3)
      | None \<Rightarrow>
     let mappingID = mappingID_of mapping
     in (case syncObjects s sourceProvider targetProvider mapping mappingID sourceObjects
               (w3, \<lparr>syncCounter = 0, skipCounter = 0, errorCounter = 0\<rparr>) of
        (w4, c) \<Rightarrow>
          (None,
           removeDeletedObjects s mappingID mapping sourceObjects targetObjects targetProvider
             (emit (LogSyncPhaseComplete (syncCounter c) (skipCounter c) (errorCounter c)
                      (length sourceObjects)) w4)))))))"



section \<open>Notions used in the statements\<close>

text \<open>
  The row of a key as a point query with no failure reads it, whether the table has the
  current layout, the record that \<^verbatim>\<open>updateObjectMetadata\<close> builds, and the classes
  of events that one iteration of each loop may append.
\<close>

definition objectEvent :: "BucketMapping \<Rightarrow> string \<Rightarrow> string \<Rightarrow> event \<Rightarrow> bool" where
  "objectEvent m mid n e =
     (case e of
        GetFileMetadataCall k n' \<Rightarrow> k = mid \<and> n' = n
      | GetObjectCall p b n' \<Rightarrow> p = SourceProviderID m \<and> b = SourceBucket m \<and> n' = n
      | UploadObjectCall p b n' sz ct \<Rightarrow> p = TargetProviderID m \<and> b = TargetBucket m \<and> n' = n
      | UpsertFileMetadataCall md \<Rightarrow> MappingID md = mid \<and> ObjectName md = n
      | _ \<Rightarrow> False)"

definition removalEvent :: "BucketMapping \<Rightarrow> string \<Rightarrow> string \<Rightarrow> event \<Rightarrow> bool" where
  "removalEvent m mid n e =
     (case e of
        DeleteObjectCall p b n' \<Rightarrow> p = TargetProviderID m \<and> b = TargetBucket m \<and> n' = n
      | DeleteFileMetadataCall k n' \<Rightarrow> k = mid \<and> n' = n
      | _ \<Rightarrow> False)"

definition recordOf :: "string \<Rightarrow> string \<Rightarrow> ObjectInfo \<Rightarrow> string \<Rightarrow> time \<Rightarrow> FileMetadata" where
  "recordOf mid n info status t =
     \<lparr>ID = 0, MappingID = mid, ObjectName = n, Size = ObjectInfo.Size info,
      LastModified = ObjectInfo.LastModified info, ETag = ObjectInfo.ETag info,
      ContentType = ObjectInfo.ContentType info, LastSynced = t, SyncStatus = status\<rparr>"

definition storedRow :: "DB \<Rightarrow> string \<Rightarrow> string \<Rightarrow> FileMetadata option" where
  "storedRow d mid n =
     (case file_metadata d of
        Some (Current rows seq) \<Rightarrow> find (\<lambda>r. MappingID r = mid \<and> ObjectName r = n) rows
      | _ \<Rightarrow> None)"

definition isCurrent :: "DB \<Rightarrow> bool" where
  "isCurrent d = (case file_metadata d of Some (Current rows seq) \<Rightarrow> True | _ \<Rightarrow> False)"

definition targetListing :: "StorageProvider \<Rightarrow> BucketMapping \<Rightarrow> listing" where
  "targetListing tp m = (case ListObjects tp (TargetBucket m) of Inl err \<Rightarrow> [] | Inr objs \<Rightarrow> objs)"

definition zeroCounters :: counters where
  "zeroCounters = \<lparr>syncCounter = 0, skipCounter = 0, errorCounter = 0\<rparr>"

definition preamble :: "BucketMapping \<Rightarrow> event list" where
  "preamble m = [ListObjectsCall (SourceProviderID m) (SourceBucket m),
                 ListObjectsCall (TargetProviderID m) (TargetBucket m),
                 EnsureBucketExistsCall (TargetProviderID m) (TargetBucket m)]"

definition removalEvents ::
  "BucketMapping \<Rightarrow> string \<Rightarrow> listing \<Rightarrow> StorageProvider \<Rightarrow> string list \<Rightarrow> event list" where
  "removalEvents m mid src tp names =
     concat (map (\<lambda>n. if n \<in> fst ` set src then []
                       else if DeleteObject tp (TargetBucket m) n = None
                       then [DeleteObjectCall (TargetProviderID m) (TargetBucket m) n,
                             DeleteFileMetadataCall mid n]
                       else [DeleteObjectCall (TargetProviderID m) (TargetBucket m) n]) names)"

definition removedNames :: "BucketMapping \<Rightarrow> listing \<Rightarrow> StorageProvider \<Rightarrow> string list \<Rightarrow> string list" where
  "removedNames m src tp names =
     filter (\<lambda>n. n \<notin> fst ` set src \<and> DeleteObject tp (TargetBucket m) n = None) names"

definition failedRemovals :: "BucketMapping \<Rightarrow> listing \<Rightarrow> StorageProvider \<Rightarrow> string list \<Rightarrow> string list" where
  "failedRemovals m src tp names =
     filter (\<lambda>n. n \<notin> fst ` set src \<and> DeleteObject tp (TargetBucket m) n \<noteq> None) names"

definition isSyncSummary :: "event \<Rightarrow> bool" where
  "isSyncSummary e = (case e of LogSyncPhaseComplete a b c t \<Rightarrow> True | _ \<Rightarrow> False)"

definition storeKey :: "event \<Rightarrow> string option" where
  "storeKey e =
     (case e of
        GetFileMetadataCall k n \<Rightarrow> Some k
      | UpsertFileMetadataCall md \<Rightarrow> Some (MappingID md)
      | DeleteFileMetadataCall k n \<Rightarrow> Some k
      | _ \<Rightarrow> None)"

definition exInfo :: ObjectInfo where
  "exInfo = \<lparr>Name = ''a.txt'', Bucket = ''src'', Size = 4, ContentType = ''text/plain'',
             LastModified = 1000, ETag = ''E1'', Metadata = Map.empty\<rparr>"

definition exMapping :: BucketMapping where
  "exMapping = \<lparr>SourceProviderID = ''src'', SourceBucket = ''src'',
                TargetProviderID = ''tgt'', TargetBucket = ''tgt''\<rparr>"

definition exProvider :: "error + listing \<Rightarrow> StorageProvider" where
  "exProvider l = \<lparr>ListObjects = (\<lambda>b. l), GetObject = (\<lambda>b n. None),
                   UploadObject = (\<lambda>b n sz ct. None), DeleteObject = (\<lambda>b n. None),
                   EnsureBucketExists = (\<lambda>b. None)\<rparr>"

definition exSync :: "error + listing \<Rightarrow> error + listing \<Rightarrow> Synchronizer" where
  "exSync src tgt = \<lparr>Mappings = [exMapping],
                     providerFactory = [''src'' \<mapsto> exProvider src, ''tgt'' \<mapsto> exProvider tgt],
                     dbFaults = (\<lambda>st. False), clock = (\<lambda>k. 2000)\<rparr>"

definition exDB :: DB where
  "exDB = \<lparr>schema_migrations = Some [(1, 0), (2, 0)], file_metadata = Some (Current [] 0)\<rparr>"

definition exWorld :: world where
  "exWorld = \<lparr>db = exDB, trace = []\<rparr>"


definition exDenied :: StorageProvider where
  "exDenied = (exProvider (Inr []))\<lparr>EnsureBucketExists := (\<lambda>b. Some (Msg ''access denied''))\<rparr>"



definition exRecord :: "string \<Rightarrow> FileMetadata" where
  "exRecord status = \<lparr>ID = 1, MappingID = ''src:src->tgt:tgt'', ObjectName = ''a.txt'',
                      Size = 4, LastModified = 1000, ETag = ''E1'', ContentType = ''text/plain'',
                      LastSynced = 1500, SyncStatus = status\<rparr>"

definition exWorldWith :: "FileMetadata list \<Rightarrow> world" where
  "exWorldWith rows = \<lparr>db = \<lparr>schema_migrations = Some [(1, 0), (2, 0)],
                              file_metadata = Some (Current rows (int (length rows)))\<rparr>,
                       trace = []\<rparr>"







definition noFaults :: faults where
  "noFaults = (\<lambda>st. False)"


definition transferStatus ::
  "StorageProvider \<Rightarrow> StorageProvider \<Rightarrow> BucketMapping \<Rightarrow> string \<Rightarrow> ObjectInfo \<Rightarrow> string" where
  "transferStatus sp tp m n info =
     (case GetObject sp (SourceBucket m) n of
        Some err \<Rightarrow> ''failed_get''
      | None \<Rightarrow>
          (case UploadObject tp (TargetBucket m) n (ObjectInfo.Size info) (ObjectInfo.ContentType info) of
             Some err \<Rightarrow> ''failed_upload''
           | None \<Rightarrow> ''success''))"

definition carries :: "FileMetadata \<Rightarrow> string \<Rightarrow> string \<Rightarrow> ObjectInfo \<Rightarrow> string \<Rightarrow> bool" where
  "carries r mid n info status \<longleftrightarrow>
     MappingID r = mid \<and> ObjectName r = n
     \<and> FileMetadata.Size r = ObjectInfo.Size info
     \<and> FileMetadata.LastModified r = ObjectInfo.LastModified info
     \<and> FileMetadata.ETag r = ObjectInfo.ETag info
     \<and> FileMetadata.ContentType r = ObjectInfo.ContentType info
     \<and> SyncStatus r = status"

definition exFailingGet :: StorageProvider where
  "exFailingGet = (exProvider (Inr [(''a.txt'', exInfo)]))\<lparr>GetObject := (\<lambda>b n. Some (Msg ''read error''))\<rparr>"

definition exSyncFailingGet :: "faults \<Rightarrow> Synchronizer" where
  "exSyncFailingGet F = \<lparr>Mappings = [exMapping],
                          providerFactory = [''src'' \<mapsto> exFailingGet, ''tgt'' \<mapsto> exProvider (Inr [])],
                          dbFaults = F, clock = (\<lambda>k. 2000)\<rparr>"






















section \<open>Basic facts\<close>

lemma trace_emit: "trace (emit e w) = trace w @ [e]"
  by (simp add: emit_def)

lemma db_emit: "db (emit e w) = db w"
  by (simp add: emit_def)

lemma updateObjectMetadata_eq:
  "updateObjectMetadata s mid n info status w =
     \<lparr>db = snd (UpsertFileMetadata (dbFaults s) (db w) (recordOf mid n info status (clock s (length (trace w))))),
      trace = trace w @ [UpsertFileMetadataCall (recordOf mid n info status (clock s (length (trace w))))]\<rparr>"
  by (simp add: updateObjectMetadata_def Let_def emit_def recordOf_def)

lemma syncObject_skip:
  assumes "\<not> needsSync (fetchStored s (db w) mid n) info"
  shows "syncObject s sp tp m mid (n, info) (w, c)
           = (emit (GetFileMetadataCall mid n) w, c\<lparr>skipCounter := skipCounter c + 1\<rparr>)"
  using assms by (simp add: syncObject_def Let_def)

lemma syncObject_failed_get:
  assumes "needsSync (fetchStored s (db w) mid n) info"
    and "GetObject sp (SourceBucket m) n = Some err"
  shows "syncObject s sp tp m mid (n, info) (w, c)
           = (updateObjectMetadata s mid n info ''failed_get''
                (emit (GetObjectCall (SourceProviderID m) (SourceBucket m) n)
                   (emit (GetFileMetadataCall mid n) w)),
              c\<lparr>errorCounter := errorCounter c + 1\<rparr>)"
  using assms by (simp add: syncObject_def Let_def)

lemma syncObject_failed_upload:
  assumes "needsSync (fetchStored s (db w) mid n) info"
    and "GetObject sp (SourceBucket m) n = None"
    and "UploadObject tp (TargetBucket m) n (ObjectInfo.Size info) (ObjectInfo.ContentType info) = Some err"
  shows "syncObject s sp tp m mid (n, info) (w, c)
           = (updateObjectMetadata s mid n info ''failed_upload''
                (emit (UploadObjectCall (TargetProviderID m) (TargetBucket m) n
                         (ObjectInfo.Size info) (ObjectInfo.ContentType info))
                   (emit (GetObjectCall (SourceProviderID m) (SourceBucket m) n)
                      (emit (GetFileMetadataCall mid n) w))),
              c\<lparr>errorCounter := errorCounter c + 1\<rparr>)"
  using assms by (simp add: syncObject_def Let_def)

lemma syncObject_success:
  assumes "needsSync (fetchStored s (db w) mid n) info"
    and "GetObject sp (SourceBucket m) n = None"
    and "UploadObject tp (TargetBucket m) n (ObjectInfo.Size info) (ObjectInfo.ContentType info) = None"
  shows "syncObject s sp tp m mid (n, info) (w, c)
           = (updateObjectMetadata s mid n info ''success''
                (emit (UploadObjectCall (TargetProviderID m) (TargetBucket m) n
                         (ObjectInfo.Size info) (ObjectInfo.ContentType info))
                   (emit (GetObjectCall (SourceProviderID m) (SourceBucket m) n)
                      (emit (GetFileMetadataCall mid n) w))),
              c\<lparr>syncCounter := syncCounter c + 1\<rparr>)"
  using assms by (simp add: syncObject_def Let_def)

lemma syncObject_cases:
  obtains (skip) "\<not> needsSync (fetchStored s (db w) mid n) info"
  | (failed_get) err where "needsSync (fetchStored s (db w) mid n) info"
      "GetObject sp (SourceBucket m) n = Some err"
  | (failed_upload) err where "needsSync (fetchStored s (db w) mid n) info"
      "GetObject sp (SourceBucket m) n = None"
      "UploadObject tp (TargetBucket m) n (ObjectInfo.Size info) (ObjectInfo.ContentType info) = Some err"
  | (success) "needsSync (fetchStored s (db w) mid n) info"
      "GetObject sp (SourceBucket m) n = None"
      "UploadObject tp (TargetBucket m) n (ObjectInfo.Size info) (ObjectInfo.ContentType info) = None"
  by (cases "GetObject sp (SourceBucket m) n";
      cases "UploadObject tp (TargetBucket m) n (ObjectInfo.Size info) (ObjectInfo.ContentType info)") auto

lemma syncObject_appends:
  "\<exists>evs. trace (fst (syncObject s sp tp m mid (n, info) (w, c))) = trace w @ evs
         \<and> (\<forall>e \<in> set evs. objectEvent m mid n e)
         \<and> GetFileMetadataCall mid n \<in> set evs
         \<and> (GetObjectCall (SourceProviderID m) (SourceBucket m) n \<in> set evs
              \<longleftrightarrow> needsSync (fetchStored s (db w) mid n) info)"
proof (cases rule: syncObject_cases[where s=s and w=w and mid=mid and n=n and info=info and sp=sp and m=m and tp=tp])
  case skip
  then show ?thesis
    by (simp add: syncObject_skip trace_emit objectEvent_def)
next
  case (failed_get err)
  then show ?thesis
    by (simp add: syncObject_failed_get updateObjectMetadata_eq trace_emit objectEvent_def recordOf_def)
next
  case (failed_upload err)
  then show ?thesis
    by (simp add: syncObject_failed_upload updateObjectMetadata_eq trace_emit objectEvent_def recordOf_def)
next
  case success
  then show ?thesis
    by (simp add: syncObject_success updateObjectMetadata_eq trace_emit objectEvent_def recordOf_def)
qed

lemma syncObjects_appends:
  "\<exists>evs. trace (fst (syncObjects s sp tp m mid src (w, c))) = trace w @ evs
         \<and> (\<forall>e \<in> set evs. \<exists>n \<in> fst ` set src. objectEvent m mid n e)
         \<and> (\<forall>n \<in> fst ` set src. GetFileMetadataCall mid n \<in> set evs)"
proof (induction src arbitrary: w c)
  case Nil
  then show ?case by simp
next
  case (Cons entry rest)
  obtain n info where entry: "entry = (n, info)" by (cases entry)
  obtain w1 c1 where step: "syncObject s sp tp m mid (n, info) (w, c) = (w1, c1)"
    by (cases "syncObject s sp tp m mid (n, info) (w, c)")
  from syncObject_appends[of s sp tp m mid n info w c] step
  obtain evs1 where e1: "trace w1 = trace w @ evs1" "\<forall>e \<in> set evs1. objectEvent m mid n e"
    "GetFileMetadataCall mid n \<in> set evs1"
    by auto
  from Cons.IH[of w1 c1]
  obtain evs2 where e2: "trace (fst (syncObjects s sp tp m mid rest (w1, c1))) = trace w1 @ evs2"
    "\<forall>e \<in> set evs2. \<exists>n \<in> fst ` set rest. objectEvent m mid n e"
    "\<forall>n \<in> fst ` set rest. GetFileMetadataCall mid n \<in> set evs2"
    by auto
  have "trace (fst (syncObjects s sp tp m mid (entry # rest) (w, c))) = trace w @ (evs1 @ evs2)"
    using e1(1) e2(1) step entry by simp
  moreover have "\<forall>e \<in> set (evs1 @ evs2). \<exists>n \<in> fst ` set (entry # rest). objectEvent m mid n e"
    using e1(2) e2(2) entry by auto
  moreover have "\<forall>n \<in> fst ` set (entry # rest). GetFileMetadataCall mid n \<in> set (evs1 @ evs2)"
    using e1(3) e2(3) entry by auto
  ultimately show ?case by blast
qed

lemma removeObject_present:
  assumes "map_of src n \<noteq> None"
  shows "removeObject s mid m src tp n (w, d, e) = (w, d, e)"
  using assms by (auto simp: removeObject_def)

lemma removeObject_failed:
  assumes "map_of src n = None" and "DeleteObject tp (TargetBucket m) n = Some err"
  shows "removeObject s mid m src tp n (w, d, e)
           = (emit (DeleteObjectCall (TargetProviderID m) (TargetBucket m) n) w, d, e + 1)"
  using assms by (simp add: removeObject_def Let_def)

lemma removeObject_deleted:
  assumes "map_of src n = None" and "DeleteObject tp (TargetBucket m) n = None"
  shows "removeObject s mid m src tp n (w, d, e)
           = (\<lparr>db = snd (DeleteFileMetadata (dbFaults s) (db w) mid n),
               trace = trace w @ [DeleteObjectCall (TargetProviderID m) (TargetBucket m) n,
                                  DeleteFileMetadataCall mid n]\<rparr>, d + 1, e)"
  using assms by (simp add: removeObject_def Let_def emit_def)

lemma removeObject_cases:
  obtains (present) "map_of src n \<noteq> None"
  | (failed) err where "map_of src n = None" "DeleteObject tp (TargetBucket m) n = Some err"
  | (deleted) "map_of src n = None" "DeleteObject tp (TargetBucket m) n = None"
  by (cases "DeleteObject tp (TargetBucket m) n") auto

lemma map_of_None_iff: "map_of src n = None \<longleftrightarrow> n \<notin> fst ` set src"
  by (simp add: map_of_eq_None_iff)

lemma find_filter_keep:
  "(\<And>x. P x \<Longrightarrow> Q x) \<Longrightarrow> find P (filter Q xs) = find P xs"
  by (induction xs) auto

lemma find_filter_drop:
  "(\<And>x. P x \<Longrightarrow> \<not> Q x) \<Longrightarrow> find P (filter Q xs) = None"
  by (induction xs) auto

lemma find_map_same:
  "(\<And>x. P (f x) = P x) \<Longrightarrow> find P (map f xs) = map_option f (find P xs)"
  by (induction xs) auto

lemma find_append_miss:
  "find P xs = None \<Longrightarrow> find P (xs @ ys) = find P ys"
  by (induction xs) (auto split: if_splits)

lemma find_append_hit:
  "find P xs = Some x \<Longrightarrow> find P (xs @ ys) = Some x"
  by (induction xs) (auto split: if_splits)

lemma isCurrentE:
  assumes "isCurrent d"
  obtains rows seq where "file_metadata d = Some (Current rows seq)"
  using assms by (auto simp: isCurrent_def split: option.splits table.splits)

lemma GetFileMetadata_ok:
  "isCurrent d \<Longrightarrow> \<not> F (SelectMetadata mid n) \<Longrightarrow> GetFileMetadata F d mid n = Inr (storedRow d mid n)"
  by (auto simp: GetFileMetadata_def storedRow_def elim!: isCurrentE)

lemma fetchStored_eq:
  "fetchStored s d mid n = (if dbFaults s (SelectMetadata mid n) then None else storedRow d mid n)"
  by (auto simp: fetchStored_def GetFileMetadata_def storedRow_def split: option.splits table.splits)

lemma Upsert_unchanged:
  "F (UpsertMetadata (MappingID md) (ObjectName md)) \<or> \<not> isCurrent d \<Longrightarrow> snd (UpsertFileMetadata F d md) = d"
  by (auto simp: UpsertFileMetadata_def isCurrent_def split: option.splits table.splits)

lemma Upsert_isCurrent: "isCurrent (snd (UpsertFileMetadata F d md)) = isCurrent d"
  by (auto simp: UpsertFileMetadata_def isCurrent_def split: option.splits table.splits)

lemma Delete_isCurrent: "isCurrent (snd (DeleteFileMetadata F d k n)) = isCurrent d"
  by (auto simp: DeleteFileMetadata_def isCurrent_def split: option.splits table.splits)

lemma storedRow_Delete:
  "storedRow (snd (DeleteFileMetadata F d k0 n0)) k n =
     (if \<not> F (DeleteMetadata k0 n0) \<and> k = k0 \<and> n = n0 then None else storedRow d k n)"
proof (cases "file_metadata d")
  case None
  then show ?thesis by (simp add: DeleteFileMetadata_def storedRow_def)
next
  case (Some t)
  show ?thesis
  proof (cases t)
    case (Current rows seq)
    show ?thesis
    proof (cases "F (DeleteMetadata k0 n0)")
      case True
      with Some Current show ?thesis by (simp add: DeleteFileMetadata_def)
    next
      case False
      show ?thesis
      proof (cases "k = k0 \<and> n = n0")
        case True
        with False Some Current show ?thesis
          by (simp add: DeleteFileMetadata_def storedRow_def find_filter_drop)
      next
        case False
        have "find (\<lambda>r. MappingID r = k \<and> ObjectName r = n)
                (filter (\<lambda>r. \<not> (MappingID r = k0 \<and> ObjectName r = n0)) rows)
              = find (\<lambda>r. MappingID r = k \<and> ObjectName r = n) rows"
          using False by (intro find_filter_keep) auto
        with False \<open>\<not> F (DeleteMetadata k0 n0)\<close> Some Current show ?thesis
          by (auto simp: DeleteFileMetadata_def storedRow_def)
      qed
    qed
  qed (use Some in \<open>simp_all add: DeleteFileMetadata_def storedRow_def\<close>)
qed

lemma storedRow_Upsert:
  assumes "file_metadata d = Some (Current rows seq)"
    and "\<not> F (UpsertMetadata (MappingID md) (ObjectName md))"
  shows "storedRow (snd (UpsertFileMetadata F d md)) k n =
           (if k = MappingID md \<and> n = ObjectName md
            then Some (case storedRow d k n of None \<Rightarrow> md\<lparr>ID := seq + 1\<rparr> | Some r \<Rightarrow> setColumns md r)
            else storedRow d k n)"
proof -
  let ?P = "\<lambda>r. MappingID r = k \<and> ObjectName r = n"
  let ?K = "\<lambda>r. MappingID r = MappingID md \<and> ObjectName r = ObjectName md"
  let ?f = "\<lambda>r. if ?K r then setColumns md r else r"
  have keep: "\<And>x. ?P (?f x) = ?P x" by (simp add: setColumns_def)
  show ?thesis
  proof (cases "\<exists>r \<in> set rows. ?K r")
    case True
    then obtain r where r: "find ?K rows = Some r"
      by (cases "find ?K rows") (auto simp: find_None_iff)
    then have Kr: "?K r" by (auto dest: find_Some_iff[THEN iffD1])
    have "find ?P (map ?f rows) = map_option ?f (find ?P rows)"
      by (rule find_map_same) (rule keep)
    moreover have "k = MappingID md \<and> n = ObjectName md \<Longrightarrow> map_option ?f (find ?P rows) = Some (setColumns md r)"
      using r Kr by auto
    moreover have "\<not> (k = MappingID md \<and> n = ObjectName md) \<Longrightarrow> map_option ?f (find ?P rows) = find ?P rows"
      by (cases "find ?P rows") (auto dest!: find_Some_iff[THEN iffD1])
    ultimately show ?thesis
      using assms True r by (auto simp: UpsertFileMetadata_def storedRow_def)
  next
    case False
    then have miss: "find ?K rows = None" by (auto simp: find_None_iff)
    show ?thesis
    proof (cases "k = MappingID md \<and> n = ObjectName md")
      case True
      with miss have "find ?P (rows @ [md\<lparr>ID := seq + 1\<rparr>]) = Some (md\<lparr>ID := seq + 1\<rparr>)"
        by (simp add: find_append_miss)
      with assms False True miss show ?thesis
        by (auto simp: UpsertFileMetadata_def storedRow_def)
    next
      case False
      have "find ?P (rows @ [md\<lparr>ID := seq + 1\<rparr>]) = find ?P rows"
        using False by (cases "find ?P rows") (auto simp: find_append_miss find_append_hit)
      with assms \<open>\<not> (\<exists>r \<in> set rows. ?K r)\<close> False show ?thesis
        by (auto simp: UpsertFileMetadata_def storedRow_def)
    qed
  qed
qed

lemma removeLoop_result:
  "\<exists>w'. removeLoop s mid m src tp names (w, d, e)
          = (w', d + length (removedNames m src tp names), e + length (failedRemovals m src tp names))
        \<and> trace w' = trace w @ removalEvents m mid src tp names
        \<and> (\<forall>k n. storedRow (db w') k n =
              (if k = mid \<and> n \<in> set (removedNames m src tp names) \<and> \<not> dbFaults s (DeleteMetadata mid n)
               then None else storedRow (db w) k n))
        \<and> isCurrent (db w') = isCurrent (db w)"
proof (induction names arbitrary: w d e)
  case Nil
  then show ?case by (simp add: removalEvents_def removedNames_def failedRemovals_def)
next
  case (Cons n rest)
  show ?case
  proof (cases rule: removeObject_cases[where src=src and n=n and tp=tp and m=m])
    case present
    then have inS: "n \<in> fst ` set src" by (simp add: map_of_None_iff)
    from Cons.IH[of w d e] obtain w' where
      "removeLoop s mid m src tp rest (w, d, e)
          = (w', d + length (removedNames m src tp rest), e + length (failedRemovals m src tp rest))"
      "trace w' = trace w @ removalEvents m mid src tp rest"
      "\<forall>k n. storedRow (db w') k n =
              (if k = mid \<and> n \<in> set (removedNames m src tp rest) \<and> \<not> dbFaults s (DeleteMetadata mid n)
               then None else storedRow (db w) k n)"
      "isCurrent (db w') = isCurrent (db w)"
      by blast
    with present inS show ?thesis
      by (simp add: removeObject_present removalEvents_def removedNames_def failedRemovals_def)
  next
    case (failed err)
    then have notS: "n \<notin> fst ` set src" by (simp add: map_of_None_iff)
    let ?w1 = "emit (DeleteObjectCall (TargetProviderID m) (TargetBucket m) n) w"
    from Cons.IH[of ?w1 d "e + 1"] obtain w' where
      "removeLoop s mid m src tp rest (?w1, d, e + 1)
          = (w', d + length (removedNames m src tp rest), e + 1 + length (failedRemovals m src tp rest))"
      "trace w' = trace ?w1 @ removalEvents m mid src tp rest"
      "\<forall>k n. storedRow (db w') k n =
              (if k = mid \<and> n \<in> set (removedNames m src tp rest) \<and> \<not> dbFaults s (DeleteMetadata mid n)
               then None else storedRow (db ?w1) k n)"
      "isCurrent (db w') = isCurrent (db ?w1)"
      by blast
    with failed notS show ?thesis
      by (simp add: removeObject_failed removalEvents_def removedNames_def failedRemovals_def
          trace_emit db_emit)
  next
    case deleted
    then have notS: "n \<notin> fst ` set src" by (simp add: map_of_None_iff)
    let ?w1 = "\<lparr>db = snd (DeleteFileMetadata (dbFaults s) (db w) mid n),
               trace = trace w @ [DeleteObjectCall (TargetProviderID m) (TargetBucket m) n,
                                  DeleteFileMetadataCall mid n]\<rparr>"
    from Cons.IH[of ?w1 "d + 1" e] obtain w' where
      "removeLoop s mid m src tp rest (?w1, d + 1, e)
          = (w', d + 1 + length (removedNames m src tp rest), e + length (failedRemovals m src tp rest))"
      "trace w' = trace ?w1 @ removalEvents m mid src tp rest"
      "\<forall>k n. storedRow (db w') k n =
              (if k = mid \<and> n \<in> set (removedNames m src tp rest) \<and> \<not> dbFaults s (DeleteMetadata mid n)
               then None else storedRow (db ?w1) k n)"
      "isCurrent (db w') = isCurrent (db ?w1)"
      by blast
    with deleted notS show ?thesis
      by (auto simp: removeObject_deleted removalEvents_def removedNames_def failedRemovals_def
          storedRow_Delete Delete_isCurrent)
  qed
qed

lemmas ex_defs = exInfo_def exMapping_def exProvider_def exSync_def exDB_def exWorld_def

lemmas run_defs = SyncBuckets_def GetProvider_def syncObject_def removeDeletedObjects_def removeObject_def
  updateObjectMetadata_def fetchStored_def needsSync_def GetFileMetadata_def UpsertFileMetadata_def
  DeleteFileMetadata_def emit_def mappingID_of_def Let_def setColumns_def

lemma SyncBuckets_success:
  assumes "providerFactory s (SourceProviderID m) = Some sp"
    and "providerFactory s (TargetProviderID m) = Some tp"
    and "ListObjects sp (SourceBucket m) = Inr src"
    and "EnsureBucketExists tp (TargetBucket m) = None"
    and "syncObjects s sp tp m (mappingID_of m) src (w\<lparr>trace := trace w @ preamble m\<rparr>, zeroCounters) = (w4, c)"
  shows "SyncBuckets s m w =
           (None, removeDeletedObjects s (mappingID_of m) m src (targetListing tp m) tp
                    (emit (LogSyncPhaseComplete (syncCounter c) (skipCounter c) (errorCounter c) (length src)) w4))"
  using assms
  by (simp add: SyncBuckets_def GetProvider_def Let_def targetListing_def zeroCounters_def
      preamble_def emit_def)

lemma SyncBuckets_None_cases:
  assumes "fst (SyncBuckets s m w) = None"
  obtains sp tp src where "providerFactory s (SourceProviderID m) = Some sp"
    and "providerFactory s (TargetProviderID m) = Some tp"
    and "ListObjects sp (SourceBucket m) = Inr src"
    and "EnsureBucketExists tp (TargetBucket m) = None"
  using assms
  by (auto simp: SyncBuckets_def GetProvider_def Let_def split: option.splits sum.splits prod.splits)

lemma removeDeletedObjects_eq:
  "\<exists>w'. removeDeletedObjects s mid m src tgt tp w
          = emit (LogRemovalPhaseComplete (length (removedNames m src tp (map fst tgt)))
                    (length (failedRemovals m src tp (map fst tgt)))) w'
        \<and> trace w' = trace w @ removalEvents m mid src tp (map fst tgt)
        \<and> (\<forall>k n. storedRow (db w') k n =
              (if k = mid \<and> n \<in> set (removedNames m src tp (map fst tgt)) \<and> \<not> dbFaults s (DeleteMetadata mid n)
               then None else storedRow (db w) k n))
        \<and> isCurrent (db w') = isCurrent (db w)"
  using removeLoop_result[of s mid m src tp "map fst tgt" w 0 0]
  by (auto simp: removeDeletedObjects_def)

lemma syncObjects_counters:
  "syncObjects s sp tp m mid src (w, c) = (w', c') \<Longrightarrow>
   syncCounter c' + skipCounter c' + errorCounter c' = syncCounter c + skipCounter c + errorCounter c + length src"
proof (induction src arbitrary: w c)
  case Nil
  then show ?case by simp
next
  case (Cons entry rest)
  obtain n info where entry: "entry = (n, info)" by (cases entry)
  obtain w1 c1 where step: "syncObject s sp tp m mid (n, info) (w, c) = (w1, c1)"
    by (cases "syncObject s sp tp m mid (n, info) (w, c)")
  have one: "syncCounter c1 + skipCounter c1 + errorCounter c1 = syncCounter c + skipCounter c + errorCounter c + 1"
    using step
    by (cases rule: syncObject_cases[where s=s and w=w and mid=mid and n=n and info=info and sp=sp and m=m and tp=tp])
       (auto simp: syncObject_skip syncObject_failed_get syncObject_failed_upload syncObject_success)
  from Cons.prems step entry have "syncObjects s sp tp m mid rest (w1, c1) = (w', c')" by simp
  from Cons.IH[OF this] one show ?case by simp
qed

lemma objectEvent_not_summary: "objectEvent m mid n e \<Longrightarrow> \<not> isSyncSummary e"
  by (auto simp: objectEvent_def isSyncSummary_def split: event.splits)

lemma removalEvents_sound:
  "e \<in> set (removalEvents m mid src tp names) \<Longrightarrow> \<exists>n \<in> set names. n \<notin> fst ` set src \<and> removalEvent m mid n e"
  by (auto simp: removalEvents_def removalEvent_def split: if_splits)

lemma removalEvent_not_summary: "removalEvent m mid n e \<Longrightarrow> \<not> isSyncSummary e"
  by (auto simp: removalEvent_def isSyncSummary_def split: event.splits)

text \<open>The events of a run of \<^verbatim>\<open>SyncBuckets\<close> that reaches its loops.\<close>

lemma SyncBuckets_run:
  assumes "providerFactory s (SourceProviderID m) = Some sp"
    and "providerFactory s (TargetProviderID m) = Some tp"
    and "ListObjects sp (SourceBucket m) = Inr src"
    and "EnsureBucketExists tp (TargetBucket m) = None"
  obtains w4 c evs1 where
    "syncObjects s sp tp m (mappingID_of m) src (w\<lparr>trace := trace w @ preamble m\<rparr>, zeroCounters) = (w4, c)"
    and "trace w4 = trace w @ preamble m @ evs1"
    and "\<forall>e \<in> set evs1. \<exists>n \<in> fst ` set src. objectEvent m (mappingID_of m) n e"
    and "\<forall>n \<in> fst ` set src. GetFileMetadataCall (mappingID_of m) n \<in> set evs1"
    and "syncCounter c + skipCounter c + errorCounter c = length src"
    and "fst (SyncBuckets s m w) = None"
    and "trace (snd (SyncBuckets s m w)) =
           trace w @ preamble m @ evs1
             @ [LogSyncPhaseComplete (syncCounter c) (skipCounter c) (errorCounter c) (length src)]
             @ removalEvents m (mappingID_of m) src tp (map fst (targetListing tp m))
             @ [LogRemovalPhaseComplete (length (removedNames m src tp (map fst (targetListing tp m))))
                  (length (failedRemovals m src tp (map fst (targetListing tp m))))]"
proof -
  let ?w0 = "w\<lparr>trace := trace w @ preamble m\<rparr>"
  obtain w4 c where loop: "syncObjects s sp tp m (mappingID_of m) src (?w0, zeroCounters) = (w4, c)"
    by (cases "syncObjects s sp tp m (mappingID_of m) src (?w0, zeroCounters)")
  from syncObjects_appends[of s sp tp m "mappingID_of m" src ?w0 zeroCounters] loop
  obtain evs1 where e1: "trace w4 = trace w @ preamble m @ evs1"
    "\<forall>e \<in> set evs1. \<exists>n \<in> fst ` set src. objectEvent m (mappingID_of m) n e"
    "\<forall>n \<in> fst ` set src. GetFileMetadataCall (mappingID_of m) n \<in> set evs1"
    by auto
  from syncObjects_counters[OF loop]
  have sum: "syncCounter c + skipCounter c + errorCounter c = length src"
    by (simp add: zeroCounters_def)
  let ?w5 = "emit (LogSyncPhaseComplete (syncCounter c) (skipCounter c) (errorCounter c) (length src)) w4"
  have run: "SyncBuckets s m w =
           (None, removeDeletedObjects s (mappingID_of m) m src (targetListing tp m) tp ?w5)"
    by (rule SyncBuckets_success[OF assms loop])
  from removeDeletedObjects_eq[of s "mappingID_of m" m src "targetListing tp m" tp ?w5]
  obtain w' where r: "removeDeletedObjects s (mappingID_of m) m src (targetListing tp m) tp ?w5
          = emit (LogRemovalPhaseComplete (length (removedNames m src tp (map fst (targetListing tp m))))
                    (length (failedRemovals m src tp (map fst (targetListing tp m))))) w'"
    "trace w' = trace ?w5 @ removalEvents m (mappingID_of m) src tp (map fst (targetListing tp m))"
    by blast
  have "trace (snd (SyncBuckets s m w)) =
           trace w @ preamble m @ evs1
             @ [LogSyncPhaseComplete (syncCounter c) (skipCounter c) (errorCounter c) (length src)]
             @ removalEvents m (mappingID_of m) src tp (map fst (targetListing tp m))
             @ [LogRemovalPhaseComplete (length (removedNames m src tp (map fst (targetListing tp m))))
                  (length (failedRemovals m src tp (map fst (targetListing tp m))))]"
    using run r e1(1) by (simp add: trace_emit)
  moreover have "fst (SyncBuckets s m w) = None" using run by simp
  ultimately show ?thesis using that loop e1 sum by blast
qed

section \<open>The counters of the synchronization phase\<close>

text \<open>
  Claim C10. A run of \<^verbatim>\<open>SyncBuckets\<close> that returns no error has listed the source,
  has gone through its loop over the source objects, and has then written exactly one
  summary line of the synchronization phase; its three counters synced, skipped and
  errored add up to its fourth number, which is the number of objects in the source
  listing. (Each iteration adds one to exactly one of the three counters.)
\<close>

theorem sync_phase_counters_partition:
  assumes "fst (SyncBuckets s m w) = None"
  shows "\<exists>sp src evs synced skipped errored.
           providerFactory s (SourceProviderID m) = Some sp
         \<and> ListObjects sp (SourceBucket m) = Inr src
         \<and> trace (snd (SyncBuckets s m w)) = trace w @ evs
         \<and> filter isSyncSummary evs = [LogSyncPhaseComplete synced skipped errored (length src)]
         \<and> synced + skipped + errored = length src"
proof -
  from assms obtain sp tp src where h: "providerFactory s (SourceProviderID m) = Some sp"
    "providerFactory s (TargetProviderID m) = Some tp"
    "ListObjects sp (SourceBucket m) = Inr src"
    "EnsureBucketExists tp (TargetBucket m) = None"
    by (rule SyncBuckets_None_cases)
  obtain w4 c evs1 where
    "syncObjects s sp tp m (mappingID_of m) src (w\<lparr>trace := trace w @ preamble m\<rparr>, zeroCounters) = (w4, c)"
    and "trace w4 = trace w @ preamble m @ evs1"
    and r: "\<forall>e \<in> set evs1. \<exists>n \<in> fst ` set src. objectEvent m (mappingID_of m) n e"
    and fetched: "\<forall>n \<in> fst ` set src. GetFileMetadataCall (mappingID_of m) n \<in> set evs1"
    and r2: "syncCounter c + skipCounter c + errorCounter c = length src"
    "fst (SyncBuckets s m w) = None"
    "trace (snd (SyncBuckets s m w)) =
           trace w @ preamble m @ evs1
             @ [LogSyncPhaseComplete (syncCounter c) (skipCounter c) (errorCounter c) (length src)]
             @ removalEvents m (mappingID_of m) src tp (map fst (targetListing tp m))
             @ [LogRemovalPhaseComplete (length (removedNames m src tp (map fst (targetListing tp m))))
                  (length (failedRemovals m src tp (map fst (targetListing tp m))))]"
    by (rule SyncBuckets_run[OF h, of w])
  let ?evs = "preamble m @ evs1
             @ [LogSyncPhaseComplete (syncCounter c) (skipCounter c) (errorCounter c) (length src)]
             @ removalEvents m (mappingID_of m) src tp (map fst (targetListing tp m))
             @ [LogRemovalPhaseComplete (length (removedNames m src tp (map fst (targetListing tp m))))
                  (length (failedRemovals m src tp (map fst (targetListing tp m))))]"
  have f1: "filter isSyncSummary evs1 = []"
    using r(1) by (auto simp: filter_empty_conv dest: objectEvent_not_summary)
  have f2: "filter isSyncSummary (removalEvents m (mappingID_of m) src tp (map fst (targetListing tp m))) = []"
    by (auto simp: filter_empty_conv dest!: removalEvents_sound dest: removalEvent_not_summary)
  have "filter isSyncSummary ?evs
          = [LogSyncPhaseComplete (syncCounter c) (skipCounter c) (errorCounter c) (length src)]"
    using f1 f2 by (simp add: preamble_def isSyncSummary_def)
  with h r2(1,3) show ?thesis by auto
qed

theorem sync_phase_counters_partition_witness:
  "fst (SyncBuckets (exSync (Inr [(''a.txt'', exInfo)]) (Inr [])) exMapping exWorld) = None
   \<and> (\<exists>sp src evs synced skipped errored.
           providerFactory (exSync (Inr [(''a.txt'', exInfo)]) (Inr [])) (SourceProviderID exMapping) = Some sp
         \<and> ListObjects sp (SourceBucket exMapping) = Inr src
         \<and> trace (snd (SyncBuckets (exSync (Inr [(''a.txt'', exInfo)]) (Inr [])) exMapping exWorld))
             = trace exWorld @ evs
         \<and> filter isSyncSummary evs = [LogSyncPhaseComplete synced skipped errored (length src)]
         \<and> synced + skipped + errored = length src)"
proof -
  have h: "fst (SyncBuckets (exSync (Inr [(''a.txt'', exInfo)]) (Inr [])) exMapping exWorld) = None"
    by (simp add: ex_defs run_defs)
  from sync_phase_counters_partition[OF h] h show ?thesis by blast
qed

lemma objectEvent_storeKey: "objectEvent m mid n e \<Longrightarrow> storeKey e = Some k \<Longrightarrow> k = mid"
  by (auto simp: objectEvent_def storeKey_def split: event.splits)

lemma removalEvent_storeKey: "removalEvent m mid n e \<Longrightarrow> storeKey e = Some k \<Longrightarrow> k = mid"
  by (auto simp: removalEvent_def storeKey_def split: event.splits)

lemma SyncBuckets_failure_events:
  assumes "fst (SyncBuckets s m w) \<noteq> None"
  shows "\<exists>evs. trace (snd (SyncBuckets s m w)) = trace w @ evs \<and> set evs \<subseteq> set (preamble m)"
  using assms
  by (auto simp: SyncBuckets_def GetProvider_def Let_def emit_def preamble_def
      split: option.splits sum.splits prod.splits)

section \<open>The key of a mapping\<close>

text \<open>
  Claim C5. Every call that \<^verbatim>\<open>SyncBuckets\<close> makes to the store for a mapping (a
  fetch, an upsert or a delete of a record) carries as its mapping key the string
  \<^verbatim>\<open>sourceProviderId:sourceBucket->targetProviderId:targetBucket\<close> built from the four
  fields of the mapping and from nothing else, so that two runs over the same mapping
  use the same key; and in a run that returns no error the record of every source object
  is fetched under that key.
\<close>

theorem mapping_key_format:
  "\<exists>evs. trace (snd (SyncBuckets s m w)) = trace w @ evs
     \<and> (\<forall>e k. e \<in> set evs \<and> storeKey e = Some k \<longrightarrow>
            k = SourceProviderID m @ '':'' @ SourceBucket m @ ''->''
                  @ TargetProviderID m @ '':'' @ TargetBucket m)
     \<and> (\<forall>sp src n. fst (SyncBuckets s m w) = None \<and> providerFactory s (SourceProviderID m) = Some sp
            \<and> ListObjects sp (SourceBucket m) = Inr src \<and> n \<in> fst ` set src \<longrightarrow>
          GetFileMetadataCall (SourceProviderID m @ '':'' @ SourceBucket m @ ''->''
                  @ TargetProviderID m @ '':'' @ TargetBucket m) n \<in> set evs)"
proof (cases "fst (SyncBuckets s m w)")
  case (Some err)
  then obtain evs where e: "trace (snd (SyncBuckets s m w)) = trace w @ evs" "set evs \<subseteq> set (preamble m)"
    using SyncBuckets_failure_events[of s m w] by auto
  have "\<forall>e k. e \<in> set evs \<and> storeKey e = Some k \<longrightarrow>
            k = SourceProviderID m @ '':'' @ SourceBucket m @ ''->''
                  @ TargetProviderID m @ '':'' @ TargetBucket m"
    using e(2) by (auto simp: preamble_def storeKey_def)
  with e(1) Some show ?thesis by auto
next
  case None
  then obtain sp tp src where h: "providerFactory s (SourceProviderID m) = Some sp"
    "providerFactory s (TargetProviderID m) = Some tp"
    "ListObjects sp (SourceBucket m) = Inr src"
    "EnsureBucketExists tp (TargetBucket m) = None"
    by (rule SyncBuckets_None_cases)
  obtain w4 c evs1 where
    loop: "syncObjects s sp tp m (mappingID_of m) src (w\<lparr>trace := trace w @ preamble m\<rparr>, zeroCounters) = (w4, c)"
    and t4: "trace w4 = trace w @ preamble m @ evs1"
    and r: "\<forall>e \<in> set evs1. \<exists>n \<in> fst ` set src. objectEvent m (mappingID_of m) n e"
    and fetched: "\<forall>n \<in> fst ` set src. GetFileMetadataCall (mappingID_of m) n \<in> set evs1"
    and r2: "syncCounter c + skipCounter c + errorCounter c = length src"
    "fst (SyncBuckets s m w) = None"
    "trace (snd (SyncBuckets s m w)) =
           trace w @ preamble m @ evs1
             @ [LogSyncPhaseComplete (syncCounter c) (skipCounter c) (errorCounter c) (length src)]
             @ removalEvents m (mappingID_of m) src tp (map fst (targetListing tp m))
             @ [LogRemovalPhaseComplete (length (removedNames m src tp (map fst (targetListing tp m))))
                  (length (failedRemovals m src tp (map fst (targetListing tp m))))]"
    by (rule SyncBuckets_run[OF h, of w])
  let ?evs = "preamble m @ evs1
             @ [LogSyncPhaseComplete (syncCounter c) (skipCounter c) (errorCounter c) (length src)]
             @ removalEvents m (mappingID_of m) src tp (map fst (targetListing tp m))
             @ [LogRemovalPhaseComplete (length (removedNames m src tp (map fst (targetListing tp m))))
                  (length (failedRemovals m src tp (map fst (targetListing tp m))))]"
  have key: "\<forall>e k. e \<in> set ?evs \<and> storeKey e = Some k \<longrightarrow> k = mappingID_of m"
  proof (intro allI impI, elim conjE)
    fix e k assume "e \<in> set ?evs" "storeKey e = Some k"
    then consider "e \<in> set (preamble m)" | "e \<in> set evs1"
      | "e = LogSyncPhaseComplete (syncCounter c) (skipCounter c) (errorCounter c) (length src)"
      | "e \<in> set (removalEvents m (mappingID_of m) src tp (map fst (targetListing tp m)))"
      | "e = LogRemovalPhaseComplete (length (removedNames m src tp (map fst (targetListing tp m))))
                  (length (failedRemovals m src tp (map fst (targetListing tp m))))"
      by auto
    then show "k = mappingID_of m"
    proof cases
      case 1
      with \<open>storeKey e = Some k\<close> show ?thesis by (auto simp: preamble_def storeKey_def)
    next
      case 2
      with r \<open>storeKey e = Some k\<close> show ?thesis by (blast dest: objectEvent_storeKey)
    next
      case 3
      with \<open>storeKey e = Some k\<close> show ?thesis by (simp add: storeKey_def)
    next
      case 4
      with \<open>storeKey e = Some k\<close> show ?thesis
        by (blast dest: removalEvents_sound removalEvent_storeKey)
    next
      case 5
      with \<open>storeKey e = Some k\<close> show ?thesis by (simp add: storeKey_def)
    qed
  qed
  have same: "\<And>sp' src'. providerFactory s (SourceProviderID m) = Some sp' \<Longrightarrow>
            ListObjects sp' (SourceBucket m) = Inr src' \<Longrightarrow> src' = src"
    using h by simp
  have "trace (snd (SyncBuckets s m w)) = trace w @ ?evs" using r2(3) by simp
  moreover have "\<forall>e k. e \<in> set ?evs \<and> storeKey e = Some k \<longrightarrow>
            k = SourceProviderID m @ '':'' @ SourceBucket m @ ''->''
                  @ TargetProviderID m @ '':'' @ TargetBucket m"
    using key by (simp add: mappingID_of_def)
  moreover have "\<forall>sp src n. fst (SyncBuckets s m w) = None \<and> providerFactory s (SourceProviderID m) = Some sp
            \<and> ListObjects sp (SourceBucket m) = Inr src \<and> n \<in> fst ` set src \<longrightarrow>
          GetFileMetadataCall (SourceProviderID m @ '':'' @ SourceBucket m @ ''->''
                  @ TargetProviderID m @ '':'' @ TargetBucket m) n \<in> set ?evs"
    using fetched same by (auto simp: mappingID_of_def)
  ultimately show ?thesis by blast
qed

theorem mapping_key_format_witness:
  "\<exists>evs. trace (snd (SyncBuckets (exSync (Inr [(''a.txt'', exInfo)]) (Inr [])) exMapping exWorld))
            = trace exWorld @ evs
      \<and> GetFileMetadataCall ''src:src->tgt:tgt'' ''a.txt'' \<in> set evs"
proof -
  let ?s = "exSync (Inr [(''a.txt'', exInfo)]) (Inr [])"
  have h: "fst (SyncBuckets ?s exMapping exWorld) = None"
    "providerFactory ?s (SourceProviderID exMapping) = Some (exProvider (Inr [(''a.txt'', exInfo)]))"
    "ListObjects (exProvider (Inr [(''a.txt'', exInfo)])) (SourceBucket exMapping) = Inr [(''a.txt'', exInfo)]"
    by (simp_all add: ex_defs run_defs)
  from mapping_key_format[of ?s exMapping exWorld] obtain evs where
    e: "trace (snd (SyncBuckets ?s exMapping exWorld)) = trace exWorld @ evs"
    and f: "\<forall>sp src n. fst (SyncBuckets ?s exMapping exWorld) = None
            \<and> providerFactory ?s (SourceProviderID exMapping) = Some sp
            \<and> ListObjects sp (SourceBucket exMapping) = Inr src \<and> n \<in> fst ` set src \<longrightarrow>
          GetFileMetadataCall (SourceProviderID exMapping @ '':'' @ SourceBucket exMapping @ ''->''
                  @ TargetProviderID exMapping @ '':'' @ TargetBucket exMapping) n \<in> set evs"
    by blast
  from f h have "GetFileMetadataCall (SourceProviderID exMapping @ '':'' @ SourceBucket exMapping @ ''->''
                  @ TargetProviderID exMapping @ '':'' @ TargetBucket exMapping) ''a.txt'' \<in> set evs"
    by (metis fst_conv image_eqI list.set_intros(1))
  then have "GetFileMetadataCall ''src:src->tgt:tgt'' ''a.txt'' \<in> set evs"
    by (simp add: exMapping_def)
  with e show ?thesis by blast
qed

lemma removalEvents_Nil: "removalEvents m mid src tp [] = []"
  by (simp add: removalEvents_def)

section \<open>Failures of the listings\<close>

text \<open>
  Claim C3. With both providers of the mapping resolved: when listing the source bucket
  fails, \<^verbatim>\<open>SyncBuckets\<close> returns an error and has done nothing but that listing call
  (no transfer, no change of the store); when listing the source succeeds and listing the
  target fails, the mapping does not fail for that and the run is the one with the empty
  target listing (nothing is removed), provided that ensuring the target bucket succeeds;
  and when ensuring the target bucket fails, after both listings and that call,
  \<^verbatim>\<open>SyncBuckets\<close> returns an error, whatever the target listing gave.
\<close>

theorem listing_failures:
  assumes "providerFactory s (SourceProviderID m) = Some sp"
    and "providerFactory s (TargetProviderID m) = Some tp"
  shows "(\<forall>err. ListObjects sp (SourceBucket m) = Inl err \<longrightarrow>
            SyncBuckets s m w =
              (Some (Wrap (''error listing objects from source bucket '' @ SourceBucket m) err),
               emit (ListObjectsCall (SourceProviderID m) (SourceBucket m)) w))
       \<and> (\<forall>src err w4 c. ListObjects sp (SourceBucket m) = Inr src
              \<and> ListObjects tp (TargetBucket m) = Inl err
              \<and> EnsureBucketExists tp (TargetBucket m) = None
              \<and> syncObjects s sp tp m (mappingID_of m) src
                    (w\<lparr>trace := trace w @ preamble m\<rparr>, zeroCounters) = (w4, c) \<longrightarrow>
            SyncBuckets s m w =
              (None, removeDeletedObjects s (mappingID_of m) m src [] tp
                       (emit (LogSyncPhaseComplete (syncCounter c) (skipCounter c) (errorCounter c)
                                (length src)) w4))
            \<and> removeDeletedObjects s (mappingID_of m) m src [] tp
                       (emit (LogSyncPhaseComplete (syncCounter c) (skipCounter c) (errorCounter c)
                                (length src)) w4)
                = emit (LogRemovalPhaseComplete 0 0)
                       (emit (LogSyncPhaseComplete (syncCounter c) (skipCounter c) (errorCounter c)
                                (length src)) w4))
       \<and> (\<forall>src err. ListObjects sp (SourceBucket m) = Inr src
              \<and> EnsureBucketExists tp (TargetBucket m) = Some err \<longrightarrow>
            SyncBuckets s m w =
              (Some (Wrap (''error ensuring target bucket '' @ TargetBucket m @ '' exists'') err),
               w\<lparr>trace := trace w @ preamble m\<rparr>))"
proof (intro conjI allI impI)
  fix err assume "ListObjects sp (SourceBucket m) = Inl err"
  with assms show "SyncBuckets s m w =
              (Some (Wrap (''error listing objects from source bucket '' @ SourceBucket m) err),
               emit (ListObjectsCall (SourceProviderID m) (SourceBucket m)) w)"
    by (simp add: SyncBuckets_def GetProvider_def Let_def)
next
  fix src err w4 c
  assume a: "ListObjects sp (SourceBucket m) = Inr src
              \<and> ListObjects tp (TargetBucket m) = Inl err
              \<and> EnsureBucketExists tp (TargetBucket m) = None
              \<and> syncObjects s sp tp m (mappingID_of m) src
                    (w\<lparr>trace := trace w @ preamble m\<rparr>, zeroCounters) = (w4, c)"
  then have tl: "targetListing tp m = []" by (simp add: targetListing_def)
  from a have "SyncBuckets s m w =
           (None, removeDeletedObjects s (mappingID_of m) m src (targetListing tp m) tp
                    (emit (LogSyncPhaseComplete (syncCounter c) (skipCounter c) (errorCounter c) (length src)) w4))"
    by (intro SyncBuckets_success[OF assms]) simp_all
  with tl show "SyncBuckets s m w =
              (None, removeDeletedObjects s (mappingID_of m) m src [] tp
                       (emit (LogSyncPhaseComplete (syncCounter c) (skipCounter c) (errorCounter c)
                                (length src)) w4))"
    by simp
  show "removeDeletedObjects s (mappingID_of m) m src [] tp
                       (emit (LogSyncPhaseComplete (syncCounter c) (skipCounter c) (errorCounter c)
                                (length src)) w4)
                = emit (LogRemovalPhaseComplete 0 0)
                       (emit (LogSyncPhaseComplete (syncCounter c) (skipCounter c) (errorCounter c)
                                (length src)) w4)"
    by (simp add: removeDeletedObjects_def)
next
  fix src err
  assume "ListObjects sp (SourceBucket m) = Inr src
              \<and> EnsureBucketExists tp (TargetBucket m) = Some err"
  with assms show "SyncBuckets s m w =
              (Some (Wrap (''error ensuring target bucket '' @ TargetBucket m @ '' exists'') err),
               w\<lparr>trace := trace w @ preamble m\<rparr>)"
    by (simp add: SyncBuckets_def GetProvider_def Let_def emit_def preamble_def)
qed

theorem listing_failures_witness:
  "SyncBuckets (exSync (Inl (Msg ''unreachable'')) (Inr [])) exMapping exWorld
     = (Some (Wrap ''error listing objects from source bucket src'' (Msg ''unreachable'')),
        \<lparr>db = exDB, trace = [ListObjectsCall ''src'' ''src'']\<rparr>)
   \<and> SyncBuckets (exSync (Inr [(''a.txt'', exInfo)]) (Inl (Msg ''no such bucket''))) exMapping exWorld
     = (None, removeDeletedObjects (exSync (Inr [(''a.txt'', exInfo)]) (Inl (Msg ''no such bucket'')))
                ''src:src->tgt:tgt'' exMapping [(''a.txt'', exInfo)] []
                (exProvider (Inl (Msg ''no such bucket'')))
                (emit (LogSyncPhaseComplete 1 0 0 1)
                   (fst (syncObjects (exSync (Inr [(''a.txt'', exInfo)]) (Inl (Msg ''no such bucket'')))
                           (exProvider (Inr [(''a.txt'', exInfo)])) (exProvider (Inl (Msg ''no such bucket'')))
                           exMapping ''src:src->tgt:tgt'' [(''a.txt'', exInfo)]
                           (exWorld\<lparr>trace := preamble exMapping\<rparr>, zeroCounters)))))
   \<and> SyncBuckets ((exSync (Inr [(''a.txt'', exInfo)]) (Inr []))
                     \<lparr>providerFactory := [''src'' \<mapsto> exProvider (Inr [(''a.txt'', exInfo)]), ''tgt'' \<mapsto> exDenied]\<rparr>)
        exMapping exWorld
     = (Some (Wrap ''error ensuring target bucket tgt exists'' (Msg ''access denied'')),
        \<lparr>db = exDB, trace = [ListObjectsCall ''src'' ''src'', ListObjectsCall ''tgt'' ''tgt'',
                              EnsureBucketExistsCall ''tgt'' ''tgt'']\<rparr>)"
proof -
  let ?s1 = "exSync (Inl (Msg ''unreachable'')) (Inr [])"
  let ?s2 = "exSync (Inr [(''a.txt'', exInfo)]) (Inl (Msg ''no such bucket''))"
  let ?s3 = "(exSync (Inr [(''a.txt'', exInfo)]) (Inr []))
                     \<lparr>providerFactory := [''src'' \<mapsto> exProvider (Inr [(''a.txt'', exInfo)]), ''tgt'' \<mapsto> exDenied]\<rparr>"
  have p1: "providerFactory ?s1 (SourceProviderID exMapping) = Some (exProvider (Inl (Msg ''unreachable'')))"
    "providerFactory ?s1 (TargetProviderID exMapping) = Some (exProvider (Inr []))"
    by (simp_all add: ex_defs)
  have p2: "providerFactory ?s2 (SourceProviderID exMapping) = Some (exProvider (Inr [(''a.txt'', exInfo)]))"
    "providerFactory ?s2 (TargetProviderID exMapping) = Some (exProvider (Inl (Msg ''no such bucket'')))"
    by (simp_all add: ex_defs)
  have p3: "providerFactory ?s3 (SourceProviderID exMapping) = Some (exProvider (Inr [(''a.txt'', exInfo)]))"
    "providerFactory ?s3 (TargetProviderID exMapping) = Some exDenied"
    by (simp_all add: ex_defs)
  have c2: "syncObjects ?s2 (exProvider (Inr [(''a.txt'', exInfo)])) (exProvider (Inl (Msg ''no such bucket'')))
              exMapping (mappingID_of exMapping) [(''a.txt'', exInfo)]
              (exWorld\<lparr>trace := trace exWorld @ preamble exMapping\<rparr>, zeroCounters)
            = (fst (syncObjects ?s2 (exProvider (Inr [(''a.txt'', exInfo)])) (exProvider (Inl (Msg ''no such bucket'')))
                           exMapping ''src:src->tgt:tgt'' [(''a.txt'', exInfo)]
                           (exWorld\<lparr>trace := preamble exMapping\<rparr>, zeroCounters)),
               \<lparr>syncCounter = 1, skipCounter = 0, errorCounter = 0\<rparr>)"
    by (simp add: ex_defs run_defs zeroCounters_def preamble_def)
  from listing_failures[OF p1, of exWorld]
  have "SyncBuckets ?s1 exMapping exWorld
     = (Some (Wrap ''error listing objects from source bucket src'' (Msg ''unreachable'')),
        \<lparr>db = exDB, trace = [ListObjectsCall ''src'' ''src'']\<rparr>)"
    by (simp add: ex_defs emit_def)
  moreover from listing_failures[OF p2, of exWorld] c2
  have "SyncBuckets ?s2 exMapping exWorld
     = (None, removeDeletedObjects ?s2 ''src:src->tgt:tgt'' exMapping [(''a.txt'', exInfo)] []
                (exProvider (Inl (Msg ''no such bucket'')))
                (emit (LogSyncPhaseComplete 1 0 0 1)
                   (fst (syncObjects ?s2
                           (exProvider (Inr [(''a.txt'', exInfo)])) (exProvider (Inl (Msg ''no such bucket'')))
                           exMapping ''src:src->tgt:tgt'' [(''a.txt'', exInfo)]
                           (exWorld\<lparr>trace := preamble exMapping\<rparr>, zeroCounters)))))"
    by (simp add: exProvider_def exMapping_def mappingID_of_def)
  moreover from listing_failures[OF p3, of exWorld]
  have "SyncBuckets ?s3 exMapping exWorld
     = (Some (Wrap ''error ensuring target bucket tgt exists'' (Msg ''access denied'')),
        \<lparr>db = exDB, trace = [ListObjectsCall ''src'' ''src'', ListObjectsCall ''tgt'' ''tgt'',
                              EnsureBucketExistsCall ''tgt'' ''tgt'']\<rparr>)"
    by (simp add: ex_defs exDenied_def preamble_def)
  ultimately show ?thesis by blast
qed









section \<open>The deletion pass\<close>



lemma needsSync_iff:
  "needsSync stored info \<longleftrightarrow>
     (case stored of
        None \<Rightarrow> True
      | Some r \<Rightarrow> FileMetadata.ETag r \<noteq> ObjectInfo.ETag info
                 \<or> FileMetadata.LastModified r \<noteq> ObjectInfo.LastModified info
                 \<or> SyncStatus r \<noteq> ''success'')"
  by (auto simp: needsSync_def split: option.splits)















lemma Upsert_result:
  "UpsertFileMetadata G d md = (e, d') \<Longrightarrow>
     (e \<noteq> None \<longrightarrow> d' = d)
   \<and> (e = None \<longrightarrow> (\<exists>rows seq. file_metadata d = Some (Current rows seq))
                    \<and> \<not> G (UpsertMetadata (MappingID md) (ObjectName md)))"
  by (auto simp: UpsertFileMetadata_def split: option.splits table.splits if_splits)

lemma setColumns_fields:
  "ID (setColumns md r) = ID r" "MappingID (setColumns md r) = MappingID r"
  "ObjectName (setColumns md r) = ObjectName r"
  "FileMetadata.Size (setColumns md r) = FileMetadata.Size md"
  "FileMetadata.LastModified (setColumns md r) = FileMetadata.LastModified md"
  "FileMetadata.ETag (setColumns md r) = FileMetadata.ETag md"
  "FileMetadata.ContentType (setColumns md r) = FileMetadata.ContentType md"
  "LastSynced (setColumns md r) = LastSynced md"
  "SyncStatus (setColumns md r) = SyncStatus md"
  by (simp_all add: setColumns_def)

lemma storedRow_key:
  "storedRow d k n = Some r \<Longrightarrow> MappingID r = k \<and> ObjectName r = n"
  by (auto simp: storedRow_def split: option.splits table.splits dest: find_Some_iff[THEN iffD1])

lemma Upsert_replaces:
  assumes "UpsertFileMetadata G d md = (None, d')"
  shows "\<exists>r. storedRow d' (MappingID md) (ObjectName md) = Some r
            \<and> MappingID r = MappingID md \<and> ObjectName r = ObjectName md
            \<and> FileMetadata.Size r = FileMetadata.Size md
            \<and> FileMetadata.LastModified r = FileMetadata.LastModified md
            \<and> FileMetadata.ETag r = FileMetadata.ETag md
            \<and> FileMetadata.ContentType r = FileMetadata.ContentType md
            \<and> LastSynced r = LastSynced md
            \<and> SyncStatus r = SyncStatus md
            \<and> (\<forall>old. storedRow d (MappingID md) (ObjectName md) = Some old \<longrightarrow> ID r = ID old)"
    and "\<forall>k n. (k, n) \<noteq> (MappingID md, ObjectName md) \<longrightarrow> storedRow d' k n = storedRow d k n"
proof -
  from Upsert_result[OF assms] obtain rows seq where
    c: "file_metadata d = Some (Current rows seq)" and nf: "\<not> G (UpsertMetadata (MappingID md) (ObjectName md))"
    by auto
  from assms have d': "d' = snd (UpsertFileMetadata G d md)" by simp
  note sr = storedRow_Upsert[where F=G and md=md, OF c nf, folded d']
  show "\<forall>k n. (k, n) \<noteq> (MappingID md, ObjectName md) \<longrightarrow> storedRow d' k n = storedRow d k n"
    using sr by auto
  show "\<exists>r. storedRow d' (MappingID md) (ObjectName md) = Some r
            \<and> MappingID r = MappingID md \<and> ObjectName r = ObjectName md
            \<and> FileMetadata.Size r = FileMetadata.Size md
            \<and> FileMetadata.LastModified r = FileMetadata.LastModified md
            \<and> FileMetadata.ETag r = FileMetadata.ETag md
            \<and> FileMetadata.ContentType r = FileMetadata.ContentType md
            \<and> LastSynced r = LastSynced md
            \<and> SyncStatus r = SyncStatus md
            \<and> (\<forall>old. storedRow d (MappingID md) (ObjectName md) = Some old \<longrightarrow> ID r = ID old)"
  proof (cases "storedRow d (MappingID md) (ObjectName md)")
    case None
    with sr[of "MappingID md" "ObjectName md"] show ?thesis by simp
  next
    case (Some old)
    from storedRow_key[OF Some] Some sr[of "MappingID md" "ObjectName md"] show ?thesis
      by (simp add: setColumns_fields)
  qed
qed

section \<open>Uniqueness of the key of a record\<close>






lemma db_updateObjectMetadata:
  "db (updateObjectMetadata s mid n info status w)
     = snd (UpsertFileMetadata (dbFaults s) (db w) (recordOf mid n info status (clock s (length (trace w)))))"
  by (simp add: updateObjectMetadata_eq)

lemma syncObject_db_skip:
  "\<not> needsSync (fetchStored s (db w) mid n) info \<Longrightarrow>
   db (fst (syncObject s sp tp m mid (n, info) (w, c))) = db w"
  by (simp add: syncObject_skip db_emit)

lemma syncObject_db_sync:
  assumes "needsSync (fetchStored s (db w) mid n) info"
  shows "\<exists>t. db (fst (syncObject s sp tp m mid (n, info) (w, c)))
           = snd (UpsertFileMetadata (dbFaults s) (db w)
                    (recordOf mid n info (transferStatus sp tp m n info) t))"
proof (cases rule: syncObject_cases[where s=s and w=w and mid=mid and n=n and info=info and sp=sp and m=m and tp=tp])
  case skip
  with assms show ?thesis by simp
next
  case (failed_get err)
  then show ?thesis
    by (auto simp: syncObject_failed_get db_updateObjectMetadata db_emit transferStatus_def)
next
  case (failed_upload err)
  then show ?thesis
    by (auto simp: syncObject_failed_upload db_updateObjectMetadata db_emit transferStatus_def)
next
  case success
  then show ?thesis
    by (auto simp: syncObject_success db_updateObjectMetadata db_emit transferStatus_def)
qed

lemma recordOf_key: "MappingID (recordOf mid n info status t) = mid" "ObjectName (recordOf mid n info status t) = n"
  by (simp_all add: recordOf_def)

lemma storedRow_not_current: "\<not> isCurrent d \<Longrightarrow> storedRow d k n = None"
  by (auto simp: isCurrent_def storedRow_def split: option.splits table.splits)

text \<open>What one iteration does to the rows of the store.\<close>

lemma syncObject_rows:
  assumes "syncObject s sp tp m mid (n, info) (w, c) = (w1, c1)"
  shows "isCurrent (db w1) = isCurrent (db w)"
    and "(k, n') \<noteq> (mid, n) \<Longrightarrow> storedRow (db w1) k n' = storedRow (db w) k n'"
    and "needsSync (fetchStored s (db w) mid n) info \<Longrightarrow> isCurrent (db w) \<Longrightarrow>
         \<not> dbFaults s (UpsertMetadata mid n) \<Longrightarrow>
         \<exists>r. storedRow (db w1) mid n = Some r \<and> carries r mid n info (transferStatus sp tp m n info)"
    and "\<not> needsSync (fetchStored s (db w) mid n) info \<or> \<not> isCurrent (db w)
           \<or> dbFaults s (UpsertMetadata mid n) \<Longrightarrow> db w1 = db w"
proof -
  have w1: "fst (syncObject s sp tp m mid (n, info) (w, c)) = w1" using assms by simp
  have skip: "\<not> needsSync (fetchStored s (db w) mid n) info \<Longrightarrow> db w1 = db w"
    using syncObject_db_skip[where s=s and w=w and mid=mid and n=n and info=info and sp=sp and tp=tp and m=m and c=c]
    by (simp add: w1)
  have sync: "needsSync (fetchStored s (db w) mid n) info \<Longrightarrow>
      \<exists>t. db w1 = snd (UpsertFileMetadata (dbFaults s) (db w)
                    (recordOf mid n info (transferStatus sp tp m n info) t))"
    using syncObject_db_sync[where s=s and w=w and mid=mid and n=n and info=info and sp=sp and tp=tp and m=m and c=c]
    by (simp add: w1)
  show "isCurrent (db w1) = isCurrent (db w)"
  proof (cases "needsSync (fetchStored s (db w) mid n) info")
    case False
    from skip[OF False] show ?thesis by simp
  next
    case True
    from sync[OF True] show ?thesis by (auto simp: Upsert_isCurrent)
  qed
  show unchanged: "db w1 = db w" if "\<not> needsSync (fetchStored s (db w) mid n) info \<or> \<not> isCurrent (db w)
           \<or> dbFaults s (UpsertMetadata mid n)"
  proof (cases "needsSync (fetchStored s (db w) mid n) info")
    case False
    from skip[OF False] show ?thesis .
  next
    case True
    with that have "\<not> isCurrent (db w) \<or> dbFaults s (UpsertMetadata mid n)" by simp
    with sync[OF True] show ?thesis
      by (auto simp: Upsert_unchanged recordOf_key)
  qed
  show "storedRow (db w1) k n' = storedRow (db w) k n'" if "(k, n') \<noteq> (mid, n)"
  proof (cases "needsSync (fetchStored s (db w) mid n) info \<and> isCurrent (db w)
                  \<and> \<not> dbFaults s (UpsertMetadata mid n)")
    case False
    then have "db w1 = db w" using unchanged by blast
    then show ?thesis by simp
  next
    case True
    then obtain rows seq where cur: "file_metadata (db w) = Some (Current rows seq)"
      by (auto elim: isCurrentE)
    from True sync
    obtain t where t: "db w1 = snd (UpsertFileMetadata (dbFaults s) (db w)
                    (recordOf mid n info (transferStatus sp tp m n info) t))"
      by auto
    from True have nf: "\<not> dbFaults s (UpsertMetadata
            (MappingID (recordOf mid n info (transferStatus sp tp m n info) t))
            (ObjectName (recordOf mid n info (transferStatus sp tp m n info) t)))"
      by (simp add: recordOf_key)
    from storedRow_Upsert[where F="dbFaults s" and md="recordOf mid n info (transferStatus sp tp m n info) t",
        OF cur nf, of k n'] that t
    show ?thesis by (auto simp: recordOf_key)
  qed
  show "\<exists>r. storedRow (db w1) mid n = Some r \<and> carries r mid n info (transferStatus sp tp m n info)"
    if ns: "needsSync (fetchStored s (db w) mid n) info" and ic: "isCurrent (db w)"
      and nf0: "\<not> dbFaults s (UpsertMetadata mid n)"
  proof -
    from ic obtain rows seq where cur: "file_metadata (db w) = Some (Current rows seq)"
      by (auto elim: isCurrentE)
    from sync[OF ns]
    obtain t where t: "db w1 = snd (UpsertFileMetadata (dbFaults s) (db w)
                    (recordOf mid n info (transferStatus sp tp m n info) t))"
      by auto
    let ?md = "recordOf mid n info (transferStatus sp tp m n info) t"
    from nf0 have nf: "\<not> dbFaults s (UpsertMetadata (MappingID ?md) (ObjectName ?md))"
      by (simp add: recordOf_key)
    have up: "UpsertFileMetadata (dbFaults s) (db w) ?md = (None, db w1)"
      using cur nf t by (auto simp: UpsertFileMetadata_def)
    from Upsert_replaces(1)[OF up] show ?thesis
      by (auto simp: carries_def recordOf_def)
  qed
qed

lemma syncObjects_isCurrent:
  "isCurrent (db (fst (syncObjects s sp tp m mid src (w, c)))) = isCurrent (db w)"
proof (induction src arbitrary: w c)
  case Nil
  show ?case by simp
next
  case (Cons entry rest)
  obtain n info where entry: "entry = (n, info)" by (cases entry)
  obtain w1 c1 where step: "syncObject s sp tp m mid (n, info) (w, c) = (w1, c1)"
    by (cases "syncObject s sp tp m mid (n, info) (w, c)")
  have unf: "syncObjects s sp tp m mid (entry # rest) (w, c) = syncObjects s sp tp m mid rest (w1, c1)"
    using step entry by simp
  have "isCurrent (db (fst (syncObjects s sp tp m mid (entry # rest) (w, c))))
          = isCurrent (db (fst (syncObjects s sp tp m mid rest (w1, c1))))"
    by (simp only: unf)
  also have "\<dots> = isCurrent (db w1)" by (rule Cons.IH)
  also have "\<dots> = isCurrent (db w)" by (rule syncObject_rows(1)[OF step])
  finally show ?case .
qed

lemma syncObjects_frame:
  "k \<noteq> mid \<or> n' \<notin> fst ` set src \<Longrightarrow>
   storedRow (db (fst (syncObjects s sp tp m mid src (w, c)))) k n' = storedRow (db w) k n'"
proof (induction src arbitrary: w c)
  case Nil
  show ?case by simp
next
  case (Cons entry rest)
  obtain n info where entry: "entry = (n, info)" by (cases entry)
  obtain w1 c1 where step: "syncObject s sp tp m mid (n, info) (w, c) = (w1, c1)"
    by (cases "syncObject s sp tp m mid (n, info) (w, c)")
  have unf: "syncObjects s sp tp m mid (entry # rest) (w, c) = syncObjects s sp tp m mid rest (w1, c1)"
    using step entry by simp
  from Cons.prems have a: "(k, n') \<noteq> (mid, n)" and b: "k \<noteq> mid \<or> n' \<notin> fst ` set rest"
    using entry by auto
  have "storedRow (db (fst (syncObjects s sp tp m mid (entry # rest) (w, c)))) k n'
          = storedRow (db (fst (syncObjects s sp tp m mid rest (w1, c1)))) k n'"
    by (simp only: unf)
  also have "\<dots> = storedRow (db w1) k n'" by (rule Cons.IH[OF b])
  also have "\<dots> = storedRow (db w) k n'" by (rule syncObject_rows(2)[OF step a])
  finally show ?case .
qed

lemma syncObjects_row_written:
  assumes "distinct (map fst src)" and "(n, info) \<in> set src"
    and "needsSync (fetchStored s (db w) mid n) info" and "isCurrent (db w)"
    and "\<not> dbFaults s (UpsertMetadata mid n)"
  shows "\<exists>r. storedRow (db (fst (syncObjects s sp tp m mid src (w, c)))) mid n = Some r
              \<and> carries r mid n info (transferStatus sp tp m n info)"
  using assms
proof (induction src arbitrary: w c)
  case Nil
  then show ?case by simp
next
  case (Cons entry rest)
  obtain n0 info0 where entry: "entry = (n0, info0)" by (cases entry)
  obtain w1 c1 where step: "syncObject s sp tp m mid (n0, info0) (w, c) = (w1, c1)"
    by (cases "syncObject s sp tp m mid (n0, info0) (w, c)")
  have unf: "syncObjects s sp tp m mid (entry # rest) (w, c) = syncObjects s sp tp m mid rest (w1, c1)"
    using step entry by simp
  show ?case
  proof (cases "n = n0")
    case True
    with Cons.prems(1,2) entry have notin: "n \<notin> fst ` set rest" and i0: "info0 = info"
      by (auto simp: image_iff)
    from step True i0 have step': "syncObject s sp tp m mid (n, info) (w, c) = (w1, c1)" by simp
    from syncObject_rows(3)[OF step' Cons.prems(3,4,5)]
    obtain r where r: "storedRow (db w1) mid n = Some r" "carries r mid n info (transferStatus sp tp m n info)"
      by auto
    have "storedRow (db (fst (syncObjects s sp tp m mid rest (w1, c1)))) mid n = storedRow (db w1) mid n"
      by (rule syncObjects_frame) (simp add: notin)
    then have "storedRow (db (fst (syncObjects s sp tp m mid (entry # rest) (w, c)))) mid n
              = storedRow (db w1) mid n"
      by (simp only: unf)
    with r show ?thesis by simp
  next
    case False
    with Cons.prems(1,2) entry have inrest: "(n, info) \<in> set rest" and dr: "distinct (map fst rest)" by auto
    have "storedRow (db w1) mid n = storedRow (db w) mid n"
      by (rule syncObject_rows(2)[OF step]) (simp add: False)
    then have fs: "fetchStored s (db w1) mid n = fetchStored s (db w) mid n"
      by (simp add: fetchStored_eq)
    have ic: "isCurrent (db w1) = isCurrent (db w)" by (rule syncObject_rows(1)[OF step])
    from Cons.prems(3,4,5) fs ic have p: "needsSync (fetchStored s (db w1) mid n) info"
      "isCurrent (db w1)" "\<not> dbFaults s (UpsertMetadata mid n)" by simp_all
    from Cons.IH[OF dr inrest p, of c1] show ?thesis by (simp only: unf)
  qed
qed

lemma syncObjects_row_kept:
  assumes "distinct (map fst src)" and "(n, info) \<in> set src"
    and "\<not> needsSync (fetchStored s (db w) mid n) info \<or> \<not> isCurrent (db w)
           \<or> dbFaults s (UpsertMetadata mid n)"
  shows "storedRow (db (fst (syncObjects s sp tp m mid src (w, c)))) mid n = storedRow (db w) mid n"
  using assms
proof (induction src arbitrary: w c)
  case Nil
  then show ?case by simp
next
  case (Cons entry rest)
  obtain n0 info0 where entry: "entry = (n0, info0)" by (cases entry)
  obtain w1 c1 where step: "syncObject s sp tp m mid (n0, info0) (w, c) = (w1, c1)"
    by (cases "syncObject s sp tp m mid (n0, info0) (w, c)")
  have unf: "syncObjects s sp tp m mid (entry # rest) (w, c) = syncObjects s sp tp m mid rest (w1, c1)"
    using step entry by simp
  show ?case
  proof (cases "n = n0")
    case True
    with Cons.prems(1,2) entry have notin: "n \<notin> fst ` set rest" and i0: "info0 = info"
      by (auto simp: image_iff)
    from step True i0 have step': "syncObject s sp tp m mid (n, info) (w, c) = (w1, c1)" by simp
    from syncObject_rows(4)[OF step' Cons.prems(3)] have same: "db w1 = db w" .
    have "storedRow (db (fst (syncObjects s sp tp m mid rest (w1, c1)))) mid n = storedRow (db w1) mid n"
      by (rule syncObjects_frame) (simp add: notin)
    then have "storedRow (db (fst (syncObjects s sp tp m mid (entry # rest) (w, c)))) mid n
              = storedRow (db w1) mid n"
      by (simp only: unf)
    with same show ?thesis by simp
  next
    case False
    with Cons.prems(1,2) entry have inrest: "(n, info) \<in> set rest" and dr: "distinct (map fst rest)" by auto
    have other: "storedRow (db w1) mid n = storedRow (db w) mid n"
      by (rule syncObject_rows(2)[OF step]) (simp add: False)
    then have fs: "fetchStored s (db w1) mid n = fetchStored s (db w) mid n"
      by (simp add: fetchStored_eq)
    have ic: "isCurrent (db w1) = isCurrent (db w)" by (rule syncObject_rows(1)[OF step])
    from Cons.prems(3) fs ic have p: "\<not> needsSync (fetchStored s (db w1) mid n) info \<or> \<not> isCurrent (db w1)
           \<or> dbFaults s (UpsertMetadata mid n)" by simp
    have "storedRow (db (fst (syncObjects s sp tp m mid (entry # rest) (w, c)))) mid n
              = storedRow (db (fst (syncObjects s sp tp m mid rest (w1, c1)))) mid n"
      by (simp only: unf)
    also have "\<dots> = storedRow (db w1) mid n" by (rule Cons.IH[OF dr inrest p])
    also have "\<dots> = storedRow (db w) mid n" by (rule other)
    finally show ?thesis .
  qed
qed

lemma SyncBuckets_rows:
  assumes "providerFactory s (SourceProviderID m) = Some sp"
    and "providerFactory s (TargetProviderID m) = Some tp"
    and "ListObjects sp (SourceBucket m) = Inr src"
    and "EnsureBucketExists tp (TargetBucket m) = None"
    and "syncObjects s sp tp m (mappingID_of m) src (w\<lparr>trace := trace w @ preamble m\<rparr>, zeroCounters) = (w4, c)"
  shows "storedRow (db (snd (SyncBuckets s m w))) k n =
           (if k = mappingID_of m \<and> n \<in> set (removedNames m src tp (map fst (targetListing tp m)))
                 \<and> \<not> dbFaults s (DeleteMetadata (mappingID_of m) n)
            then None else storedRow (db w4) k n)"
    and "isCurrent (db (snd (SyncBuckets s m w))) = isCurrent (db w4)"
proof -
  let ?w5 = "emit (LogSyncPhaseComplete (syncCounter c) (skipCounter c) (errorCounter c) (length src)) w4"
  have run: "SyncBuckets s m w =
           (None, removeDeletedObjects s (mappingID_of m) m src (targetListing tp m) tp ?w5)"
    by (rule SyncBuckets_success[OF assms])
  from removeDeletedObjects_eq[of s "mappingID_of m" m src "targetListing tp m" tp ?w5]
  obtain w' where r: "removeDeletedObjects s (mappingID_of m) m src (targetListing tp m) tp ?w5
          = emit (LogRemovalPhaseComplete (length (removedNames m src tp (map fst (targetListing tp m))))
                    (length (failedRemovals m src tp (map fst (targetListing tp m))))) w'"
    "\<forall>k n. storedRow (db w') k n =
              (if k = mappingID_of m \<and> n \<in> set (removedNames m src tp (map fst (targetListing tp m)))
                    \<and> \<not> dbFaults s (DeleteMetadata (mappingID_of m) n)
               then None else storedRow (db ?w5) k n)"
    "isCurrent (db w') = isCurrent (db ?w5)"
    by (elim exE conjE)
  have d: "db (snd (SyncBuckets s m w)) = db w'"
    using run r(1) by (simp add: db_emit)
  show "storedRow (db (snd (SyncBuckets s m w))) k n =
           (if k = mappingID_of m \<and> n \<in> set (removedNames m src tp (map fst (targetListing tp m)))
                 \<and> \<not> dbFaults s (DeleteMetadata (mappingID_of m) n)
            then None else storedRow (db w4) k n)"
    using r(2) by (simp only: d db_emit)
  show "isCurrent (db (snd (SyncBuckets s m w))) = isCurrent (db w4)"
    using r(3) by (simp only: d db_emit)
qed

lemma removedNames_not_source: "n \<in> fst ` set src \<Longrightarrow> n \<notin> set (removedNames m src tp names)"
  by (simp add: removedNames_def)

text \<open>The record of a source object after a run of \<^verbatim>\<open>SyncBuckets\<close> that reaches its loops.\<close>

lemma SyncBuckets_source_row:
  assumes "providerFactory s (SourceProviderID m) = Some sp"
    and "providerFactory s (TargetProviderID m) = Some tp"
    and "ListObjects sp (SourceBucket m) = Inr src"
    and "EnsureBucketExists tp (TargetBucket m) = None"
    and "distinct (map fst src)" and "(n, info) \<in> set src"
  shows "needsSync (fetchStored s (db w) (mappingID_of m) n) info \<Longrightarrow> isCurrent (db w) \<Longrightarrow>
         \<not> dbFaults s (UpsertMetadata (mappingID_of m) n) \<Longrightarrow>
         \<exists>r. storedRow (db (snd (SyncBuckets s m w))) (mappingID_of m) n = Some r
              \<and> carries r (mappingID_of m) n info (transferStatus sp tp m n info)"
    and "\<not> needsSync (fetchStored s (db w) (mappingID_of m) n) info \<or> \<not> isCurrent (db w)
           \<or> dbFaults s (UpsertMetadata (mappingID_of m) n) \<Longrightarrow>
         storedRow (db (snd (SyncBuckets s m w))) (mappingID_of m) n = storedRow (db w) (mappingID_of m) n"
proof -
  let ?w0 = "w\<lparr>trace := trace w @ preamble m\<rparr>"
  obtain w4 c where loop: "syncObjects s sp tp m (mappingID_of m) src (?w0, zeroCounters) = (w4, c)"
    by (cases "syncObjects s sp tp m (mappingID_of m) src (?w0, zeroCounters)")
  then have w4: "fst (syncObjects s sp tp m (mappingID_of m) src (?w0, zeroCounters)) = w4" by simp
  have d0: "db ?w0 = db w" by simp
  from assms(6) have "n \<in> fst ` set src" by (metis fst_conv imageI)
  then have keep: "storedRow (db (snd (SyncBuckets s m w))) (mappingID_of m) n = storedRow (db w4) (mappingID_of m) n"
    using SyncBuckets_rows(1)[OF assms(1-4) loop, of "mappingID_of m" n]
    by (simp add: removedNames_not_source)
  show "\<exists>r. storedRow (db (snd (SyncBuckets s m w))) (mappingID_of m) n = Some r
              \<and> carries r (mappingID_of m) n info (transferStatus sp tp m n info)"
    if "needsSync (fetchStored s (db w) (mappingID_of m) n) info" "isCurrent (db w)"
      "\<not> dbFaults s (UpsertMetadata (mappingID_of m) n)"
    using syncObjects_row_written[OF assms(5,6), of s ?w0 "mappingID_of m" sp tp m zeroCounters] that
    by (simp only: w4 d0 keep) simp
  show "storedRow (db (snd (SyncBuckets s m w))) (mappingID_of m) n = storedRow (db w) (mappingID_of m) n"
    if "\<not> needsSync (fetchStored s (db w) (mappingID_of m) n) info \<or> \<not> isCurrent (db w)
           \<or> dbFaults s (UpsertMetadata (mappingID_of m) n)"
    using syncObjects_row_kept[OF assms(5,6), of s ?w0 "mappingID_of m" sp tp m zeroCounters] that
    by (simp only: w4 d0 keep)
qed

section \<open>Records of failed transfers\<close>

text \<open>
  Claim C9, as stated, fails: \<^verbatim>\<open>updateObjectMetadata\<close> only logs an error of the upsert,
  so when the store refuses the write, a failed transfer leaves no \<^verbatim>\<open>failed_get\<close>
  record. Below, the read of \<^verbatim>\<open>a.txt\<close> fails, the upsert of its record fails too, and
  after the run the store has no record for it.
\<close>

theorem failed_transfer_unrecorded_counterexample:
  "\<not> (\<forall>s m w sp tp src n info err.
        providerFactory s (SourceProviderID m) = Some sp
      \<and> providerFactory s (TargetProviderID m) = Some tp
      \<and> ListObjects sp (SourceBucket m) = Inr src
      \<and> EnsureBucketExists tp (TargetBucket m) = None
      \<and> distinct (map fst src) \<and> (n, info) \<in> set src
      \<and> needsSync (fetchStored s (db w) (mappingID_of m) n) info
      \<and> GetObject sp (SourceBucket m) n = Some err
      \<longrightarrow> (\<exists>r. storedRow (db (snd (SyncBuckets s m w))) (mappingID_of m) n = Some r
                \<and> SyncStatus r = ''failed_get''))"
proof
  assume a: "\<forall>s m w sp tp src n info err.
        providerFactory s (SourceProviderID m) = Some sp
      \<and> providerFactory s (TargetProviderID m) = Some tp
      \<and> ListObjects sp (SourceBucket m) = Inr src
      \<and> EnsureBucketExists tp (TargetBucket m) = None
      \<and> distinct (map fst src) \<and> (n, info) \<in> set src
      \<and> needsSync (fetchStored s (db w) (mappingID_of m) n) info
      \<and> GetObject sp (SourceBucket m) n = Some err
      \<longrightarrow> (\<exists>r. storedRow (db (snd (SyncBuckets s m w))) (mappingID_of m) n = Some r
                \<and> SyncStatus r = ''failed_get'')"
  let ?s = "exSyncFailingGet (\<lambda>st. st = UpsertMetadata ''src:src->tgt:tgt'' ''a.txt'')"
  have h: "providerFactory ?s (SourceProviderID exMapping) = Some exFailingGet
      \<and> providerFactory ?s (TargetProviderID exMapping) = Some (exProvider (Inr []))
      \<and> ListObjects exFailingGet (SourceBucket exMapping) = Inr [(''a.txt'', exInfo)]
      \<and> EnsureBucketExists (exProvider (Inr [])) (TargetBucket exMapping) = None
      \<and> distinct (map fst [(''a.txt'', exInfo)]) \<and> (''a.txt'', exInfo) \<in> set [(''a.txt'', exInfo)]
      \<and> needsSync (fetchStored ?s (db exWorld) (mappingID_of exMapping) ''a.txt'') exInfo
      \<and> GetObject exFailingGet (SourceBucket exMapping) ''a.txt'' = Some (Msg ''read error'')"
    by (simp add: exSyncFailingGet_def exFailingGet_def ex_defs fetchStored_def GetFileMetadata_def
        needsSync_def mappingID_of_def)
  have none: "storedRow (db (snd (SyncBuckets ?s exMapping exWorld))) (mappingID_of exMapping) ''a.txt'' = None"
    by (simp add: exSyncFailingGet_def exFailingGet_def ex_defs run_defs storedRow_def)
  from a[rule_format, OF h] none show False by simp
qed

text \<open>
  Claim C9, amended. In a run of \<^verbatim>\<open>SyncBuckets\<close> that reaches its loop, take a source
  object (the names of a listing are distinct) whose transfer is attempted, that is,
  whose fetched record is absent or differs. If the table has the current layout and the
  upsert for the object's key does not fail, then after the run the store has a record
  under the key of the mapping and the object's name that carries the size,
  lastModified, etag and contentType of the source descriptor, with status
  \<^verbatim>\<open>failed_get\<close> when the read from the source failed and \<^verbatim>\<open>failed_upload\<close> when the
  read succeeded and the write to the target failed. If the upsert fails, its error is
  logged and the record of that key is after the run what it was before it.
\<close>

theorem failed_transfer_recorded:
  assumes "providerFactory s (SourceProviderID m) = Some sp"
    and "providerFactory s (TargetProviderID m) = Some tp"
    and "ListObjects sp (SourceBucket m) = Inr src"
    and "EnsureBucketExists tp (TargetBucket m) = None"
    and "distinct (map fst src)" and "(n, info) \<in> set src"
    and "needsSync (fetchStored s (db w) (mappingID_of m) n) info"
  shows "(isCurrent (db w) \<and> \<not> dbFaults s (UpsertMetadata (mappingID_of m) n) \<longrightarrow>
            (\<exists>r. storedRow (db (snd (SyncBuckets s m w))) (mappingID_of m) n = Some r
               \<and> MappingID r = mappingID_of m \<and> ObjectName r = n
               \<and> FileMetadata.Size r = ObjectInfo.Size info
               \<and> FileMetadata.LastModified r = ObjectInfo.LastModified info
               \<and> FileMetadata.ETag r = ObjectInfo.ETag info
               \<and> FileMetadata.ContentType r = ObjectInfo.ContentType info
               \<and> (\<forall>err. GetObject sp (SourceBucket m) n = Some err \<longrightarrow> SyncStatus r = ''failed_get'')
               \<and> (\<forall>err. GetObject sp (SourceBucket m) n = None
                      \<and> UploadObject tp (TargetBucket m) n (ObjectInfo.Size info)
                            (ObjectInfo.ContentType info) = Some err \<longrightarrow>
                    SyncStatus r = ''failed_upload'')))
       \<and> (\<not> isCurrent (db w) \<or> dbFaults s (UpsertMetadata (mappingID_of m) n) \<longrightarrow>
            storedRow (db (snd (SyncBuckets s m w))) (mappingID_of m) n
              = storedRow (db w) (mappingID_of m) n)"
proof (intro conjI impI)
  assume "isCurrent (db w) \<and> \<not> dbFaults s (UpsertMetadata (mappingID_of m) n)"
  with SyncBuckets_source_row(1)[OF assms(1-6)] assms(7)
  obtain r where r: "storedRow (db (snd (SyncBuckets s m w))) (mappingID_of m) n = Some r"
    "carries r (mappingID_of m) n info (transferStatus sp tp m n info)"
    by auto
  from r(2) have "MappingID r = mappingID_of m \<and> ObjectName r = n
               \<and> FileMetadata.Size r = ObjectInfo.Size info
               \<and> FileMetadata.LastModified r = ObjectInfo.LastModified info
               \<and> FileMetadata.ETag r = ObjectInfo.ETag info
               \<and> FileMetadata.ContentType r = ObjectInfo.ContentType info
               \<and> (\<forall>err. GetObject sp (SourceBucket m) n = Some err \<longrightarrow> SyncStatus r = ''failed_get'')
               \<and> (\<forall>err. GetObject sp (SourceBucket m) n = None
                      \<and> UploadObject tp (TargetBucket m) n (ObjectInfo.Size info)
                            (ObjectInfo.ContentType info) = Some err \<longrightarrow>
                    SyncStatus r = ''failed_upload'')"
    by (auto simp: carries_def transferStatus_def)
  with r(1) show "\<exists>r. storedRow (db (snd (SyncBuckets s m w))) (mappingID_of m) n = Some r
               \<and> MappingID r = mappingID_of m \<and> ObjectName r = n
               \<and> FileMetadata.Size r = ObjectInfo.Size info
               \<and> FileMetadata.LastModified r = ObjectInfo.LastModified info
               \<and> FileMetadata.ETag r = ObjectInfo.ETag info
               \<and> FileMetadata.ContentType r = ObjectInfo.ContentType info
               \<and> (\<forall>err. GetObject sp (SourceBucket m) n = Some err \<longrightarrow> SyncStatus r = ''failed_get'')
               \<and> (\<forall>err. GetObject sp (SourceBucket m) n = None
                      \<and> UploadObject tp (TargetBucket m) n (ObjectInfo.Size info)
                            (ObjectInfo.ContentType info) = Some err \<longrightarrow>
                    SyncStatus r = ''failed_upload'')"
    by blast
next
  assume "\<not> isCurrent (db w) \<or> dbFaults s (UpsertMetadata (mappingID_of m) n)"
  then have "\<not> needsSync (fetchStored s (db w) (mappingID_of m) n) info \<or> \<not> isCurrent (db w)
           \<or> dbFaults s (UpsertMetadata (mappingID_of m) n)" by blast
  from SyncBuckets_source_row(2)[OF assms(1-6) this]
  show "storedRow (db (snd (SyncBuckets s m w))) (mappingID_of m) n
              = storedRow (db w) (mappingID_of m) n" .
qed

theorem failed_transfer_recorded_witness:
  "\<exists>r. storedRow (db (snd (SyncBuckets (exSyncFailingGet noFaults) exMapping exWorld)))
          ''src:src->tgt:tgt'' ''a.txt'' = Some r
      \<and> FileMetadata.Size r = 4 \<and> FileMetadata.LastModified r = 1000 \<and> FileMetadata.ETag r = ''E1''
      \<and> FileMetadata.ContentType r = ''text/plain'' \<and> SyncStatus r = ''failed_get''"
proof -
  let ?s = "exSyncFailingGet noFaults"
  have h: "providerFactory ?s (SourceProviderID exMapping) = Some exFailingGet"
    "providerFactory ?s (TargetProviderID exMapping) = Some (exProvider (Inr []))"
    "ListObjects exFailingGet (SourceBucket exMapping) = Inr [(''a.txt'', exInfo)]"
    "EnsureBucketExists (exProvider (Inr [])) (TargetBucket exMapping) = None"
    "distinct (map fst [(''a.txt'', exInfo)])" "(''a.txt'', exInfo) \<in> set [(''a.txt'', exInfo)]"
    "needsSync (fetchStored ?s (db exWorld) (mappingID_of exMapping) ''a.txt'') exInfo"
    by (simp_all add: exSyncFailingGet_def exFailingGet_def ex_defs fetchStored_def GetFileMetadata_def
        needsSync_def mappingID_of_def noFaults_def)
  have g: "isCurrent (db exWorld) \<and> \<not> dbFaults ?s (UpsertMetadata (mappingID_of exMapping) ''a.txt'')"
    by (simp add: isCurrent_def exWorld_def exDB_def exSyncFailingGet_def noFaults_def)
  have e: "GetObject exFailingGet (SourceBucket exMapping) ''a.txt'' = Some (Msg ''read error'')"
    by (simp add: exFailingGet_def exProvider_def)
  have k: "mappingID_of exMapping = ''src:src->tgt:tgt''"
    by (simp add: mappingID_of_def exMapping_def)
  from failed_transfer_recorded[OF h, THEN conjunct1, rule_format, OF g]
  obtain r where r: "storedRow (db (snd (SyncBuckets ?s exMapping exWorld))) (mappingID_of exMapping) ''a.txt'' = Some r"
    "FileMetadata.Size r = ObjectInfo.Size exInfo"
    "FileMetadata.LastModified r = ObjectInfo.LastModified exInfo"
    "FileMetadata.ETag r = ObjectInfo.ETag exInfo"
    "FileMetadata.ContentType r = ObjectInfo.ContentType exInfo"
    "\<forall>err. GetObject exFailingGet (SourceBucket exMapping) ''a.txt'' = Some err \<longrightarrow> SyncStatus r = ''failed_get''"
    by (elim exE conjE)
  from r(6) e have "SyncStatus r = ''failed_get''" by blast
  with r(1-5) show ?thesis by (simp add: k exInfo_def)
qed












section \<open>Running twice\<close>
































section \<open>Schema upgrade on open\<close>





section \<open>The driver\<close>



section \<open>The decision for one source object\<close>

text \<open>
  Claim C1, as stated, fails when the query for the stored record fails: the error is
  logged, \<^verbatim>\<open>storedMetadata\<close> stays nil, and the object is transferred although the store
  holds a record for it that matches on etag, lastModified and status. Below, the store
  holds such a record for \<^verbatim>\<open>a.txt\<close>, the SELECT for it fails, and the iteration reads the
  object, uploads it, writes its record again and counts it as synced.
\<close>

theorem matching_record_transferred_counterexample:
  "storedRow (db (exWorldWith [exRecord ''success''])) ''src:src->tgt:tgt'' ''a.txt''
     = Some (exRecord ''success'')
   \<and> FileMetadata.ETag (exRecord ''success'') = ObjectInfo.ETag exInfo
   \<and> FileMetadata.LastModified (exRecord ''success'') = ObjectInfo.LastModified exInfo
   \<and> SyncStatus (exRecord ''success'') = ''success''
   \<and> syncObject ((exSync (Inr []) (Inr []))
                    \<lparr>dbFaults := (\<lambda>st. st = SelectMetadata ''src:src->tgt:tgt'' ''a.txt'')\<rparr>)
        (exProvider (Inr [])) (exProvider (Inr [])) exMapping ''src:src->tgt:tgt''
        (''a.txt'', exInfo) (exWorldWith [exRecord ''success''], zeroCounters)
     = (\<lparr>db = \<lparr>schema_migrations = Some [(1, 0), (2, 0)],
                file_metadata = Some (Current [\<lparr>ID = 1, MappingID = ''src:src->tgt:tgt'',
                    ObjectName = ''a.txt'', Size = 4, LastModified = 1000, ETag = ''E1'',
                    ContentType = ''text/plain'', LastSynced = 2000, SyncStatus = ''success''\<rparr>] 2)\<rparr>,
         trace = [GetFileMetadataCall ''src:src->tgt:tgt'' ''a.txt'',
                  GetObjectCall ''src'' ''src'' ''a.txt'',
                  UploadObjectCall ''tgt'' ''tgt'' ''a.txt'' 4 ''text/plain'',
                  UpsertFileMetadataCall \<lparr>ID = 0, MappingID = ''src:src->tgt:tgt'',
                    ObjectName = ''a.txt'', Size = 4, LastModified = 1000, ETag = ''E1'',
                    ContentType = ''text/plain'', LastSynced = 2000, SyncStatus = ''success''\<rparr>]\<rparr>,
        \<lparr>syncCounter = 1, skipCounter = 0, errorCounter = 0\<rparr>)"
proof -
  have 1: "storedRow (db (exWorldWith [exRecord ''success''])) ''src:src->tgt:tgt'' ''a.txt''
     = Some (exRecord ''success'')"
    by (simp add: storedRow_def exWorldWith_def exRecord_def)
  have 2: "FileMetadata.ETag (exRecord ''success'') = ObjectInfo.ETag exInfo"
    "FileMetadata.LastModified (exRecord ''success'') = ObjectInfo.LastModified exInfo"
    "SyncStatus (exRecord ''success'') = ''success''"
    by (simp_all add: exRecord_def exInfo_def)
  have 3: "syncObject ((exSync (Inr []) (Inr []))
                    \<lparr>dbFaults := (\<lambda>st. st = SelectMetadata ''src:src->tgt:tgt'' ''a.txt'')\<rparr>)
        (exProvider (Inr [])) (exProvider (Inr [])) exMapping ''src:src->tgt:tgt''
        (''a.txt'', exInfo) (exWorldWith [exRecord ''success''], zeroCounters)
     = (\<lparr>db = \<lparr>schema_migrations = Some [(1, 0), (2, 0)],
                file_metadata = Some (Current [\<lparr>ID = 1, MappingID = ''src:src->tgt:tgt'',
                    ObjectName = ''a.txt'', Size = 4, LastModified = 1000, ETag = ''E1'',
                    ContentType = ''text/plain'', LastSynced = 2000, SyncStatus = ''success''\<rparr>] 2)\<rparr>,
         trace = [GetFileMetadataCall ''src:src->tgt:tgt'' ''a.txt'',
                  GetObjectCall ''src'' ''src'' ''a.txt'',
                  UploadObjectCall ''tgt'' ''tgt'' ''a.txt'' 4 ''text/plain'',
                  UpsertFileMetadataCall \<lparr>ID = 0, MappingID = ''src:src->tgt:tgt'',
                    ObjectName = ''a.txt'', Size = 4, LastModified = 1000, ETag = ''E1'',
                    ContentType = ''text/plain'', LastSynced = 2000, SyncStatus = ''success''\<rparr>]\<rparr>,
        \<lparr>syncCounter = 1, skipCounter = 0, errorCounter = 0\<rparr>)"
    by (simp add: syncObject_def fetchStored_def GetFileMetadata_def needsSync_def
        updateObjectMetadata_def UpsertFileMetadata_def setColumns_def emit_def Let_def
        exSync_def exProvider_def exMapping_def exInfo_def exWorldWith_def exRecord_def
        zeroCounters_def)
  from 1 2 3 show ?thesis by (intro conjI)
qed

text \<open>
  Claim C1, amended. Let \<open>stored\<close> be what the iteration for a source object has in
  \<^verbatim>\<open>storedMetadata\<close> after its fetch: the record of the key in the store, or nothing when
  there is none or when the query failed. The object is transferred exactly when \<open>stored\<close>
  is absent, or its etag differs from the object's, or its lastModified differs, or its
  status is not \<^verbatim>\<open>success\<close>; so a record with status \<^verbatim>\<open>failed_upload\<close> or
  \<^verbatim>\<open>failed_get\<close> is tried again even with etag and lastModified unchanged. A transfer
  is: the read from the source; if the read succeeded, the upload to the target; then the
  upsert of the record built from the source descriptor, with status \<^verbatim>\<open>failed_get\<close>,
  \<^verbatim>\<open>failed_upload\<close> or \<^verbatim>\<open>success\<close>; and one more in the counter of synced objects
  when both calls succeeded, in the counter of errors otherwise. When \<open>stored\<close> matches on
  all three, the iteration only adds one to the skip counter: the fetch is its only call,
  and the store is unchanged.
\<close>

theorem per_object_decision:
  "let stored = (if dbFaults s (SelectMetadata mid n) then None else storedRow (db w) mid n);
       transfer = (case stored of
                     None \<Rightarrow> True
                   | Some r \<Rightarrow> FileMetadata.ETag r \<noteq> ObjectInfo.ETag info
                              \<or> FileMetadata.LastModified r \<noteq> ObjectInfo.LastModified info
                              \<or> SyncStatus r \<noteq> ''success'');
       readOk = (GetObject sp (SourceBucket m) n = None);
       status = transferStatus sp tp m n info;
       written = recordOf mid n info status
                  (clock s (length (trace w) + (if readOk then 3 else 2)))
   in fetchStored s (db w) mid n = stored
    \<and> (\<forall>r. stored = Some r \<and> (SyncStatus r = ''failed_upload'' \<or> SyncStatus r = ''failed_get'')
           \<longrightarrow> transfer)
    \<and> (\<not> transfer \<longrightarrow>
          syncObject s sp tp m mid (n, info) (w, c)
            = (emit (GetFileMetadataCall mid n) w, c\<lparr>skipCounter := skipCounter c + 1\<rparr>))
    \<and> (transfer \<longrightarrow>
          syncObject s sp tp m mid (n, info) (w, c)
            = (\<lparr>db = snd (UpsertFileMetadata (dbFaults s) (db w) written),
                trace = trace w
                  @ [GetFileMetadataCall mid n,
                     GetObjectCall (SourceProviderID m) (SourceBucket m) n]
                  @ (if readOk
                     then [UploadObjectCall (TargetProviderID m) (TargetBucket m) n
                             (ObjectInfo.Size info) (ObjectInfo.ContentType info)]
                     else [])
                  @ [UpsertFileMetadataCall written]\<rparr>,
               if status = ''success'' then c\<lparr>syncCounter := syncCounter c + 1\<rparr>
               else c\<lparr>errorCounter := errorCounter c + 1\<rparr>))"
proof -
  let ?stored = "if dbFaults s (SelectMetadata mid n) then None else storedRow (db w) mid n"
  let ?transfer = "case ?stored of
                     None \<Rightarrow> True
                   | Some r \<Rightarrow> FileMetadata.ETag r \<noteq> ObjectInfo.ETag info
                              \<or> FileMetadata.LastModified r \<noteq> ObjectInfo.LastModified info
                              \<or> SyncStatus r \<noteq> ''success''"
  let ?readOk = "GetObject sp (SourceBucket m) n = None"
  let ?status = "transferStatus sp tp m n info"
  let ?written = "recordOf mid n info ?status (clock s (length (trace w) + (if ?readOk then 3 else 2)))"
  have f: "fetchStored s (db w) mid n = ?stored" by (rule fetchStored_eq)
  have ns: "needsSync (fetchStored s (db w) mid n) info = ?transfer"
    unfolding f by (rule needsSync_iff)
  have a: "\<forall>r. ?stored = Some r \<and> (SyncStatus r = ''failed_upload'' \<or> SyncStatus r = ''failed_get'')
           \<longrightarrow> ?transfer"
    by auto
  have b: "\<not> ?transfer \<longrightarrow>
          syncObject s sp tp m mid (n, info) (w, c)
            = (emit (GetFileMetadataCall mid n) w, c\<lparr>skipCounter := skipCounter c + 1\<rparr>)"
  proof
    assume "\<not> ?transfer"
    with ns have "\<not> needsSync (fetchStored s (db w) mid n) info" by blast
    then show "syncObject s sp tp m mid (n, info) (w, c)
            = (emit (GetFileMetadataCall mid n) w, c\<lparr>skipCounter := skipCounter c + 1\<rparr>)"
      by (rule syncObject_skip)
  qed
  have c: "?transfer \<longrightarrow>
          syncObject s sp tp m mid (n, info) (w, c)
            = (\<lparr>db = snd (UpsertFileMetadata (dbFaults s) (db w) ?written),
                trace = trace w
                  @ [GetFileMetadataCall mid n,
                     GetObjectCall (SourceProviderID m) (SourceBucket m) n]
                  @ (if ?readOk
                     then [UploadObjectCall (TargetProviderID m) (TargetBucket m) n
                             (ObjectInfo.Size info) (ObjectInfo.ContentType info)]
                     else [])
                  @ [UpsertFileMetadataCall ?written]\<rparr>,
               if ?status = ''success'' then c\<lparr>syncCounter := syncCounter c + 1\<rparr>
               else c\<lparr>errorCounter := errorCounter c + 1\<rparr>)"
  proof
    assume "?transfer"
    with ns have n: "needsSync (fetchStored s (db w) mid n) info" by blast
    show "syncObject s sp tp m mid (n, info) (w, c)
            = (\<lparr>db = snd (UpsertFileMetadata (dbFaults s) (db w) ?written),
                trace = trace w
                  @ [GetFileMetadataCall mid n,
                     GetObjectCall (SourceProviderID m) (SourceBucket m) n]
                  @ (if ?readOk
                     then [UploadObjectCall (TargetProviderID m) (TargetBucket m) n
                             (ObjectInfo.Size info) (ObjectInfo.ContentType info)]
                     else [])
                  @ [UpsertFileMetadataCall ?written]\<rparr>,
               if ?status = ''success'' then c\<lparr>syncCounter := syncCounter c + 1\<rparr>
               else c\<lparr>errorCounter := errorCounter c + 1\<rparr>)"
    proof (cases "GetObject sp (SourceBucket m) n")
      case (Some err)
      then show ?thesis
        by (simp add: syncObject_failed_get[OF n Some] updateObjectMetadata_eq trace_emit db_emit
            transferStatus_def eval_nat_numeral)
    next
      case None
      show ?thesis
      proof (cases "UploadObject tp (TargetBucket m) n (ObjectInfo.Size info) (ObjectInfo.ContentType info)")
        case (Some err)
        with None show ?thesis
          by (simp add: syncObject_failed_upload[OF n None Some] updateObjectMetadata_eq trace_emit
              db_emit transferStatus_def eval_nat_numeral)
      next
        case up: None
        with None show ?thesis
          by (simp add: syncObject_success[OF n None up] updateObjectMetadata_eq trace_emit
              db_emit transferStatus_def eval_nat_numeral)
      qed
    qed
  qed
  from f a b c show ?thesis unfolding Let_def by (intro conjI)
qed

theorem per_object_decision_witness:
  "storedRow (db (exWorldWith [exRecord ''failed_upload''])) ''src:src->tgt:tgt'' ''a.txt''
     = Some (exRecord ''failed_upload'')
   \<and> syncObject (exSync (Inr []) (Inr [])) (exProvider (Inr [])) (exProvider (Inr []))
        exMapping ''src:src->tgt:tgt'' (''a.txt'', exInfo)
        (exWorldWith [exRecord ''failed_upload''], zeroCounters)
     = (\<lparr>db = \<lparr>schema_migrations = Some [(1, 0), (2, 0)],
                file_metadata = Some (Current [\<lparr>ID = 1, MappingID = ''src:src->tgt:tgt'',
                    ObjectName = ''a.txt'', Size = 4, LastModified = 1000, ETag = ''E1'',
                    ContentType = ''text/plain'', LastSynced = 2000, SyncStatus = ''success''\<rparr>] 2)\<rparr>,
         trace = [GetFileMetadataCall ''src:src->tgt:tgt'' ''a.txt'',
                  GetObjectCall ''src'' ''src'' ''a.txt'',
                  UploadObjectCall ''tgt'' ''tgt'' ''a.txt'' 4 ''text/plain'',
                  UpsertFileMetadataCall \<lparr>ID = 0, MappingID = ''src:src->tgt:tgt'',
                    ObjectName = ''a.txt'', Size = 4, LastModified = 1000, ETag = ''E1'',
                    ContentType = ''text/plain'', LastSynced = 2000, SyncStatus = ''success''\<rparr>]\<rparr>,
        \<lparr>syncCounter = 1, skipCounter = 0, errorCounter = 0\<rparr>)
   \<and> storedRow (db (exWorldWith [exRecord ''success''])) ''src:src->tgt:tgt'' ''a.txt''
     = Some (exRecord ''success'')
   \<and> syncObject (exSync (Inr []) (Inr [])) (exProvider (Inr [])) (exProvider (Inr []))
        exMapping ''src:src->tgt:tgt'' (''a.txt'', exInfo) (exWorldWith [exRecord ''success''], zeroCounters)
       = (emit (GetFileMetadataCall ''src:src->tgt:tgt'' ''a.txt'') (exWorldWith [exRecord ''success'']),
          \<lparr>syncCounter = 0, skipCounter = 1, errorCounter = 0\<rparr>)"
proof -
  let ?s = "exSync (Inr []) (Inr [])"
  let ?p = "exProvider (Inr [])"
  let ?wf = "exWorldWith [exRecord ''failed_upload'']"
  let ?ws = "exWorldWith [exRecord ''success'']"
  have nf: "\<not> dbFaults ?s (SelectMetadata ''src:src->tgt:tgt'' ''a.txt'')"
    by (simp add: exSync_def)
  have f1: "storedRow (db ?wf) ''src:src->tgt:tgt'' ''a.txt'' = Some (exRecord ''failed_upload'')"
    by (simp add: storedRow_def exWorldWith_def exRecord_def)
  have f2: "storedRow (db ?ws) ''src:src->tgt:tgt'' ''a.txt'' = Some (exRecord ''success'')"
    by (simp add: storedRow_def exWorldWith_def exRecord_def)
  have one: "syncObject ?s ?p ?p exMapping ''src:src->tgt:tgt'' (''a.txt'', exInfo) (?wf, zeroCounters)
     = (\<lparr>db = \<lparr>schema_migrations = Some [(1, 0), (2, 0)],
                file_metadata = Some (Current [\<lparr>ID = 1, MappingID = ''src:src->tgt:tgt'',
                    ObjectName = ''a.txt'', Size = 4, LastModified = 1000, ETag = ''E1'',
                    ContentType = ''text/plain'', LastSynced = 2000, SyncStatus = ''success''\<rparr>] 2)\<rparr>,
         trace = [GetFileMetadataCall ''src:src->tgt:tgt'' ''a.txt'',
                  GetObjectCall ''src'' ''src'' ''a.txt'',
                  UploadObjectCall ''tgt'' ''tgt'' ''a.txt'' 4 ''text/plain'',
                  UpsertFileMetadataCall \<lparr>ID = 0, MappingID = ''src:src->tgt:tgt'',
                    ObjectName = ''a.txt'', Size = 4, LastModified = 1000, ETag = ''E1'',
                    ContentType = ''text/plain'', LastSynced = 2000, SyncStatus = ''success''\<rparr>]\<rparr>,
        \<lparr>syncCounter = 1, skipCounter = 0, errorCounter = 0\<rparr>)"
    using per_object_decision[of ?s "''src:src->tgt:tgt''" "''a.txt''" ?wf info
        ?p exMapping ?p c for info c, of exInfo zeroCounters]
    unfolding Let_def f1 if_not_P[OF nf]
    by (simp add: exRecord_def exInfo_def exProvider_def exMapping_def exSync_def exWorldWith_def
        transferStatus_def recordOf_def UpsertFileMetadata_def setColumns_def zeroCounters_def)
  have two: "syncObject ?s ?p ?p exMapping ''src:src->tgt:tgt'' (''a.txt'', exInfo) (?ws, zeroCounters)
       = (emit (GetFileMetadataCall ''src:src->tgt:tgt'' ''a.txt'') ?ws,
          \<lparr>syncCounter = 0, skipCounter = 1, errorCounter = 0\<rparr>)"
    using per_object_decision[of ?s "''src:src->tgt:tgt''" "''a.txt''" ?ws info
        ?p exMapping ?p c for info c, of exInfo zeroCounters]
    unfolding Let_def f2 if_not_P[OF nf]
    by (simp add: exRecord_def exInfo_def zeroCounters_def)
  from f1 one f2 two show ?thesis by (intro conjI)
qed

end
